theory Spec2Isabelle
  imports Complex_Main "HOL-Library.AList"
begin

section \<open>Data model\<close>

text \<open>
  The relational entities of the store (Prisma models), the enums of the schema and the
  error classes of \<^verbatim>\<open>utils/errors.ts\<close>. Decimal amounts are rationals; the
  conversion \<^verbatim>\<open>Number(decimal)\<close> is the identity on them (binary rounding is not
  modelled). Stock and quantities are integers.
\<close>

datatype OrderStatus = PENDING | PAID | CANCELED

datatype PaymentStatus = PaymentStatus_PENDING | PaymentStatus_SUCCESS | PaymentStatus_FAILED

datatype PaymentProvider = STRIPE | BKASH

datatype ProductStatus = ACTIVE | INACTIVE

datatype json =
    JUndefined
  | JNull
  | JBool bool
  | JNum rat
  | JStr string
  | JObj "(string \<times> json) list"

text \<open>
  \<^verbatim>\<open>AppError\<close> and its subclasses, each with its message. \<open>ZodError\<close> is what
  \<^verbatim>\<open>schema.parse\<close> throws (the issues' messages); \<open>PrismaNotFound\<close> is what an
  \<^verbatim>\<open>update\<close> of a missing row throws, \<open>TypeError\<close> what reading a field of a null
  relation throws.
\<close>

datatype error =
    NotFoundError string
  | ValidationError string
  | PaymentError string
  | InsufficientStockError string
  | ZodError "string list"
  | PrismaNotFound string
  | TypeError string

record Product =
  product_name :: string
  product_price :: rat
  product_stock :: int
  product_status :: ProductStatus

record OrderItem =
  item_productId :: string
  item_quantity :: int
  item_price :: rat
  item_subtotal :: rat

record Order =
  order_userId :: string
  order_totalAmount :: rat
  order_status :: OrderStatus
  order_items :: "OrderItem list"

record Payment =
  payment_id :: string
  payment_orderId :: string
  payment_provider :: PaymentProvider
  payment_transactionId :: "string option"
  payment_status :: PaymentStatus
  payment_rawResponse :: "(string \<times> json) list option"

text \<open>The normalized results of a provider strategy (\<^verbatim>\<open>types.ts\<close>).\<close>

record PaymentData =
  data_orderId :: string
  data_amount :: rat
  data_currency :: string
  data_userId :: string

record PaymentResult =
  result_success :: bool
  result_paymentId :: "string option"
  result_clientSecret :: "string option"
  result_redirectUrl :: "string option"
  result_error :: "string option"

record PaymentVerificationResult =
  verification_verified :: bool
  verification_status :: "string option"
  verification_transactionId :: "string option"
  verification_amount :: "rat option"
  verification_message :: "string option"

record RefundResult =
  refund_success :: bool
  refund_refundId :: "string option"

text \<open>The signed event a webhook delivers: its type and the payment intent it carries.\<close>

record PaymentIntent =
  intent_id :: string
  intent_amount :: json
  intent_status :: json
  intent_last_payment_error :: json

record StripeEvent =
  event_type :: string
  event_object :: PaymentIntent

text \<open>
  The remote side: one function per operation of \<^verbatim>\<open>IPaymentStrategy\<close>, indexed by
  the strategy the factory resolved, and the Stripe strategy's signature check. A
  transport failure is the thrown error (\<open>Inl\<close>).
\<close>

record gateway =
  gw_initiatePayment :: "PaymentProvider \<Rightarrow> PaymentData \<Rightarrow> error + PaymentResult"
  gw_verifyPayment :: "PaymentProvider \<Rightarrow> string \<Rightarrow> error + PaymentVerificationResult"
  gw_refundPayment :: "PaymentProvider \<Rightarrow> string \<Rightarrow> rat option \<Rightarrow> error + RefundResult"
  gw_constructPaymentIntent :: "string \<Rightarrow> string \<Rightarrow> error + StripeEvent"

datatype ProviderCall =
    InitiateCall PaymentProvider PaymentData
  | VerifyCall PaymentProvider string
  | RefundCall PaymentProvider string "rat option"

text \<open>
  The world a service call runs in: the three tables of the store and the trace of the
  remote calls made so far. Products and orders are keyed by their primary key; payments
  are kept in table order, since \<^verbatim>\<open>findFirst\<close> returns the first match.
\<close>

record world =
  products :: "string \<rightharpoonup> Product"
  orders :: "string \<rightharpoonup> Order"
  payments :: "Payment list"
  provider_calls :: "ProviderCall list"

section \<open>Strings\<close>

text \<open>\<^verbatim>\<open>String.prototype.toLowerCase\<close> on ASCII text.\<close>

definition toLowerCase_char :: "char \<Rightarrow> char" where
  "toLowerCase_char c =
     (case map_of (zip ''ABCDEFGHIJKLMNOPQRSTUVWXYZ'' ''abcdefghijklmnopqrstuvwxyz'') c of
        None \<Rightarrow> c
      | Some l \<Rightarrow> l)"

definition toLowerCase :: "string \<Rightarrow> string" where
  "toLowerCase s = map toLowerCase_char s"

fun show_nat :: "nat \<Rightarrow> string" where
  "show_nat n =
     (if n < 10 then [''0123456789'' ! n]
      else show_nat (n div 10) @ [''0123456789'' ! (n mod 10)])"

declare show_nat.simps [simp del]

text \<open>An integer inside a template literal.\<close>

definition show_int :: "int \<Rightarrow> string" where
  "show_int i = (if i < 0 then CHR ''-'' # show_nat (nat (- i)) else show_nat (nat i))"


fun PaymentProvider_str :: "PaymentProvider \<Rightarrow> string" where
  "PaymentProvider_str STRIPE = ''STRIPE''"
| "PaymentProvider_str BKASH = ''BKASH''"

section \<open>The store\<close>

text \<open>
  \<^verbatim>\<open>prisma.$transaction\<close>: the body runs on the world; when it throws, nothing it
  wrote is kept.
\<close>

definition transaction ::
  "(world \<Rightarrow> error + 'a \<times> world) \<Rightarrow> world \<Rightarrow> (error + 'a) \<times> world" where
  "transaction body w =
     (case body w of
        Inl e \<Rightarrow> (Inl e, w)
      | Inr (r, w') \<Rightarrow> (Inr r, w'))"

definition findFirst_payment :: "string \<Rightarrow> Payment list \<Rightarrow> Payment option" where
  "findFirst_payment transactionId ps =
     find (\<lambda>p. payment_transactionId p = Some transactionId) ps"

definition findUnique_payment :: "string \<Rightarrow> Payment list \<Rightarrow> Payment option" where
  "findUnique_payment paymentId ps = find (\<lambda>p. payment_id p = paymentId) ps"

definition payment_update :: "string \<Rightarrow> (Payment \<Rightarrow> Payment) \<Rightarrow> world \<Rightarrow> error + world" where
  "payment_update paymentId f w =
     (case findUnique_payment paymentId (payments w) of
        None \<Rightarrow> Inl (PrismaNotFound ''Payment'')
      | Some _ \<Rightarrow>
          Inr (w\<lparr>payments := map (\<lambda>p. if payment_id p = paymentId then f p else p) (payments w)\<rparr>))"

definition order_update :: "string \<Rightarrow> (Order \<Rightarrow> Order) \<Rightarrow> world \<Rightarrow> error + world" where
  "order_update orderId f w =
     (case orders w orderId of
        None \<Rightarrow> Inl (PrismaNotFound ''Order'')
      | Some ord \<Rightarrow> Inr (w\<lparr>orders := (orders w)(orderId \<mapsto> f ord)\<rparr>))"

text \<open>\<^verbatim>\<open>tx.product.update({ data: { stock: { decrement: n } } })\<close>.\<close>

definition product_decrement :: "string \<Rightarrow> int \<Rightarrow> world \<Rightarrow> error + world" where
  "product_decrement productId n w =
     (case products w productId of
        None \<Rightarrow> Inl (PrismaNotFound ''Product'')
      | Some p \<Rightarrow>
          Inr (w\<lparr>products := (products w)(productId \<mapsto> p\<lparr>product_stock := product_stock p - n\<rparr>)\<rparr>))"

text \<open>\<^verbatim>\<open>{ ...(payment.rawResponse as any), key: value }\<close>: spreading null adds nothing.\<close>

definition spread :: "(string \<times> json) list option \<Rightarrow> (string \<times> json) list" where
  "spread r = (case r of None \<Rightarrow> [] | Some kvs \<Rightarrow> kvs)"

definition json_of_string_option :: "string option \<Rightarrow> json" where
  "json_of_string_option s = (case s of None \<Rightarrow> JUndefined | Some v \<Rightarrow> JStr v)"

definition json_of_rat_option :: "rat option \<Rightarrow> json" where
  "json_of_rat_option s = (case s of None \<Rightarrow> JUndefined | Some v \<Rightarrow> JNum v)"

section \<open>Order service\<close>




text \<open>
  \<^verbatim>\<open>createOrderSchema.parse\<close>: the messages of the issues zod reports; \<open>uuid\<close> is
  zod's UUID test, taken as a parameter.
\<close>

record OrderItemDTO =
  dto_productId :: string
  dto_quantity :: int

definition createOrderSchema_issues :: "(string \<Rightarrow> bool) \<Rightarrow> OrderItemDTO list \<Rightarrow> string list" where
  "createOrderSchema_issues uuid items =
     concat (map (\<lambda>item.
        (if uuid (dto_productId item) then [] else [''Invalid product ID'']) @
        (if 0 < dto_quantity item then [] else [''Quantity must be at least 1''])) items) @
     (if 1 \<le> length items then [] else [''Order must contain at least one item''])"

text \<open>\<^verbatim>\<open>tx.product.findMany({ where: { id: { in: productIds } } })\<close>, as the ids found.\<close>

definition findMany_products :: "string list \<Rightarrow> world \<Rightarrow> string list" where
  "findMany_products productIds w = filter (\<lambda>i. products w i \<noteq> None) (remdups productIds)"

text \<open>
  \<^verbatim>\<open>price.multiply(item.quantity)\<close>. The price is a Prisma \<^verbatim>\<open>Decimal\<close>, the class of
  decimal.js, whose product is \<^verbatim>\<open>mul\<close> or \<^verbatim>\<open>times\<close>; it has no property
  \<^verbatim>\<open>multiply\<close>, so the call throws a \<^verbatim>\<open>TypeError\<close> whatever the price and the
  quantity are.
\<close>

definition Decimal_multiply :: "rat \<Rightarrow> int \<Rightarrow> error + rat" where
  "Decimal_multiply price quantity = Inl (TypeError ''price.multiply is not a function'')"

text \<open>
  The loop of \<^verbatim>\<open>createOrder\<close> over the validated items, with its two accumulators
  \<^verbatim>\<open>totalAmount\<close> and \<^verbatim>\<open>orderItems\<close>.
\<close>

fun createOrder_items ::
  "(string \<rightharpoonup> Product) \<Rightarrow> OrderItemDTO list \<Rightarrow> rat \<Rightarrow> OrderItem list \<Rightarrow> error + rat \<times> OrderItem list" where
  "createOrder_items productMap [] totalAmount orderItems = Inr (totalAmount, orderItems)"
| "createOrder_items productMap (item # rest) totalAmount orderItems =
     (case productMap (dto_productId item) of
        None \<Rightarrow> Inl (NotFoundError (''Product '' @ dto_productId item @ '' not found''))
      | Some product \<Rightarrow>
          if product_status product \<noteq> ACTIVE
          then Inl (ValidationError (''Product \"'' @ product_name product @ ''\" is not available''))
          else if product_stock product < dto_quantity item
          then Inl (InsufficientStockError (''Insufficient stock for \"'' @ product_name product @
                 ''\". Available: '' @ show_int (product_stock product) @
                 '', Requested: '' @ show_int (dto_quantity item)))
          else (let price = product_price product
                in case Decimal_multiply price (dto_quantity item) of
                     Inl e \<Rightarrow> Inl e
                   | Inr subtotal \<Rightarrow>
                       createOrder_items productMap rest (totalAmount + subtotal)
                         (orderItems @ [\<lparr>item_productId = dto_productId item,
                                         item_quantity = dto_quantity item,
                                         item_price = price,
                                         item_subtotal = subtotal\<rparr>])))"

text \<open>
  \<^verbatim>\<open>createOrder(userId, data)\<close>; \<open>newId\<close> is the identifier the store gives the new
  order. The returned pair is the new order's id and row.
\<close>

definition createOrder ::
  "(string \<Rightarrow> bool) \<Rightarrow> string \<Rightarrow> string \<Rightarrow> OrderItemDTO list \<Rightarrow> world \<Rightarrow> (error + string \<times> Order) \<times> world" where
  "createOrder uuid newId userId items w =
     (if createOrderSchema_issues uuid items \<noteq> []
      then (Inl (ZodError (createOrderSchema_issues uuid items)), w)
      else if length items = 0
      then (Inl (ValidationError ''Order must contain at least one item''), w)
      else transaction (\<lambda>tx.
        let productIds = map dto_productId items;
            found = findMany_products productIds tx
        in if length found \<noteq> length productIds
           then Inl (NotFoundError ''One or more products not found'')
           else (case createOrder_items (products tx |` set found) items 0 [] of
                   Inl e \<Rightarrow> Inl e
                 | Inr (totalAmount, orderItems) \<Rightarrow>
                     (let ord = \<lparr>order_userId = userId,
                                 order_totalAmount = totalAmount,
                                 order_status = PENDING,
                                 order_items = orderItems\<rparr>
                      in Inr ((newId, ord), tx\<lparr>orders := (orders tx)(newId \<mapsto> ord)\<rparr>)))) w)"

section \<open>Payment service\<close>

text \<open>
  \<^verbatim>\<open>PaymentStrategyFactory.getStrategy\<close>: the strategy is named by its provider. The
  cache of instances does not change what is returned.
\<close>

definition getStrategy :: "string \<Rightarrow> error + PaymentProvider" where
  "getStrategy provider =
     (let normalizedProvider = toLowerCase provider
      in if normalizedProvider = ''stripe'' then Inr STRIPE
         else if normalizedProvider = ''bkash'' then Inr BKASH
         else Inl (ValidationError (''Unsupported payment provider: '' @ provider @
                ''. Supported providers: stripe, bkash'')))"

record InitiateResponse =
  response_paymentId :: string
  response_clientSecret :: "string option"
  response_redirectUrl :: "string option"

text \<open>\<^verbatim>\<open>a || b\<close> on an optional string: undefined and the empty string are falsy.\<close>

definition string_or :: "string option \<Rightarrow> string \<Rightarrow> string" where
  "string_or a b = (case a of None \<Rightarrow> b | Some s \<Rightarrow> if s = [] then b else s)"

definition initiatePayment ::
  "gateway \<Rightarrow> string \<Rightarrow> string \<Rightarrow> string \<Rightarrow> world \<Rightarrow> (error + InitiateResponse) \<times> world" where
  "initiatePayment gw newId orderId provider w =
     (case orders w orderId of
        None \<Rightarrow> (Inl (NotFoundError (''Order '' @ orderId @ '' not found'')), w)
      | Some ord \<Rightarrow>
          if length (filter (\<lambda>p. payment_orderId p = orderId) (payments w)) > 0
          then (Inl (PaymentError ''Payment already initiated for this order''), w)
          else (case getStrategy provider of
                  Inl e \<Rightarrow> (Inl e, w)
                | Inr strategy \<Rightarrow>
                   (let paymentData = \<lparr>data_orderId = orderId,
                                        data_amount = order_totalAmount ord,
                                        data_currency =
                                          (if toLowerCase provider = ''bkash'' then ''BDT'' else ''USD''),
                                        data_userId = order_userId ord\<rparr>;
                        w1 = w\<lparr>provider_calls := provider_calls w @ [InitiateCall strategy paymentData]\<rparr>
                    in case gw_initiatePayment gw strategy paymentData of
                         Inl e \<Rightarrow> (Inl e, w1)
                       | Inr result \<Rightarrow>
                           if \<not> result_success result
                           then (Inl (PaymentError
                                   (string_or (result_error result) ''Payment initiation failed'')), w1)
                           else (let payment =
                                       \<lparr>payment_id = newId,
                                        payment_orderId = orderId,
                                        payment_provider =
                                          (if toLowerCase provider = ''bkash'' then BKASH else STRIPE),
                                        payment_transactionId = result_paymentId result,
                                        payment_status = PaymentStatus_PENDING,
                                        payment_rawResponse =
                                          Some [(''clientSecret'',
                                                  json_of_string_option (result_clientSecret result)),
                                                (''redirectUrl'',
                                                  json_of_string_option (result_redirectUrl result))]\<rparr>
                                 in (Inr \<lparr>response_paymentId = newId,
                                          response_clientSecret = result_clientSecret result,
                                          response_redirectUrl = result_redirectUrl result\<rparr>,
                                     w1\<lparr>payments := payments w1 @ [payment]\<rparr>)))))"

text \<open>
  \<^verbatim>\<open>reduceStock(tx, orderId)\<close>: the order is read once with its items and their
  products; the loop tests the stock of that read and decrements the row in the store.
\<close>

fun reduceStock_items :: "(OrderItem \<times> Product option) list \<Rightarrow> world \<Rightarrow> error + world" where
  "reduceStock_items [] tx = Inr tx"
| "reduceStock_items ((item, item_product) # rest) tx =
     (case item_product of
        None \<Rightarrow> Inl (PaymentError (''Product '' @ item_productId item @ '' not found''))
      | Some product \<Rightarrow>
          if product_stock product < item_quantity item
          then Inl (PaymentError (''Insufficient stock for product '' @ product_name product @
                 ''. Available: '' @ show_int (product_stock product) @
                 '', Required: '' @ show_int (item_quantity item)))
          else (case product_decrement (item_productId item) (item_quantity item) tx of
                  Inl e \<Rightarrow> Inl e
                | Inr tx' \<Rightarrow> reduceStock_items rest tx'))"

definition reduceStock :: "string \<Rightarrow> world \<Rightarrow> error + world" where
  "reduceStock orderId tx =
     (case orders tx orderId of
        None \<Rightarrow> Inl (PaymentError (''Order '' @ orderId @ '' not found for stock reduction''))
      | Some ord \<Rightarrow>
          reduceStock_items
            (map (\<lambda>item. (item, products tx (item_productId item))) (order_items ord)) tx)"

definition json_of_verification :: "PaymentVerificationResult \<Rightarrow> json" where
  "json_of_verification v =
     JObj [(''verified'', JBool (verification_verified v)),
           (''status'', json_of_string_option (verification_status v)),
           (''transactionId'', json_of_string_option (verification_transactionId v)),
           (''amount'', json_of_rat_option (verification_amount v)),
           (''message'', json_of_string_option (verification_message v))]"

text \<open>
  \<^verbatim>\<open>verifyPayment(paymentId)\<close>; \<open>now\<close> is \<^verbatim>\<open>new Date().toISOString()\<close>. The
  result is the payment row as the update returned it.
\<close>

definition verifyPayment ::
  "gateway \<Rightarrow> string \<Rightarrow> string \<Rightarrow> world \<Rightarrow> (error + Payment) \<times> world" where
  "verifyPayment gw now paymentId w =
     (case findUnique_payment paymentId (payments w) of
        None \<Rightarrow> (Inl (NotFoundError (''Payment '' @ paymentId @ '' not found'')), w)
      | Some payment \<Rightarrow>
          if string_or (payment_transactionId payment) [] = []
          then (Inl (PaymentError ''Transaction ID not found''), w)
          else (case getStrategy (toLowerCase (PaymentProvider_str (payment_provider payment))) of
             Inl e \<Rightarrow> (Inl e, w)
           | Inr strategy \<Rightarrow>
              (let transactionId = string_or (payment_transactionId payment) [];
                   w1 = w\<lparr>provider_calls := provider_calls w @ [VerifyCall strategy transactionId]\<rparr>
               in case gw_verifyPayment gw strategy transactionId of
                    Inl e \<Rightarrow> (Inl e, w1)
                  | Inr verification \<Rightarrow>
                      transaction (\<lambda>tx.
                        let newStatus = (if verification_verified verification
                                         then PaymentStatus_SUCCESS else PaymentStatus_FAILED);
                            data = (\<lambda>p. p\<lparr>payment_status := newStatus,
                                     payment_transactionId :=
                                       Some (string_or (verification_transactionId verification)
                                               transactionId),
                                     payment_rawResponse :=
                                       Some (AList.update ''verifiedAt'' (JStr now)
                                              (AList.update ''verificationResult''
                                                 (json_of_verification verification)
                                                 (spread (payment_rawResponse payment))))\<rparr>)
                        in case payment_update paymentId data tx of
                             Inl e \<Rightarrow> Inl e
                           | Inr tx1 \<Rightarrow>
                               if verification_verified verification
                               then (case order_update (payment_orderId payment)
                                            (\<lambda>ord. ord\<lparr>order_status := PAID\<rparr>) tx1 of
                                       Inl e \<Rightarrow> Inl e
                                     | Inr tx2 \<Rightarrow>
                                         if payment_provider payment = BKASH
                                         then (case reduceStock (payment_orderId payment) tx2 of
                                                 Inl e \<Rightarrow> Inl e
                                               | Inr tx3 \<Rightarrow> Inr (data payment, tx3))
                                         else Inr (data payment, tx2))
                               else Inr (data payment, tx1)) w1)))"

text \<open>
  \<^verbatim>\<open>amount || Number(payment.order.totalAmount)\<close>: no amount and 0 are falsy, and
  the included order is read only then.
\<close>

definition refundAmount :: "rat option \<Rightarrow> Order option \<Rightarrow> error + rat" where
  "refundAmount amount payment_order =
     (let totalAmount = (case payment_order of
                           None \<Rightarrow> Inl (TypeError ''payment.order is null'')
                         | Some ord \<Rightarrow> Inr (order_totalAmount ord))
      in case amount of
           None \<Rightarrow> totalAmount
         | Some a \<Rightarrow> if a = 0 then totalAmount else Inr a)"

definition refundPayment ::
  "gateway \<Rightarrow> string \<Rightarrow> string \<Rightarrow> rat option \<Rightarrow> world \<Rightarrow> (error + Payment) \<times> world" where
  "refundPayment gw now paymentId amount w =
     (case findUnique_payment paymentId (payments w) of
        None \<Rightarrow> (Inl (NotFoundError (''Payment '' @ paymentId @ '' not found'')), w)
      | Some payment \<Rightarrow>
          if payment_status payment \<noteq> PaymentStatus_SUCCESS
          then (Inl (PaymentError ''Can only refund successful payments''), w)
          else if string_or (payment_transactionId payment) [] = []
          then (Inl (PaymentError ''Transaction ID not found''), w)
          else (case getStrategy (toLowerCase (PaymentProvider_str (payment_provider payment))) of
             Inl e \<Rightarrow> (Inl e, w)
           | Inr strategy \<Rightarrow>
              (let transactionId = string_or (payment_transactionId payment) [];
                   w1 = w\<lparr>provider_calls := provider_calls w @ [RefundCall strategy transactionId amount]\<rparr>
               in case gw_refundPayment gw strategy transactionId amount of
                    Inl e \<Rightarrow> (Inl e, w1)
                  | Inr result \<Rightarrow>
                      if \<not> refund_success result
                      then (Inl (PaymentError ''Refund processing failed''), w1)
                      else (case refundAmount amount (orders w (payment_orderId payment)) of
                              Inl e \<Rightarrow> (Inl e, w1)
                            | Inr refunded \<Rightarrow>
                               (let data = (\<lambda>p. p\<lparr>payment_status := PaymentStatus_FAILED,
                                            payment_rawResponse :=
                                              Some (AList.update ''refundAmount'' (JNum refunded)
                                                     (AList.update ''refundedAt'' (JStr now)
                                                       (AList.update ''refundId''
                                                          (json_of_string_option (refund_refundId result))
                                                          (spread (payment_rawResponse payment)))))\<rparr>)
                                in case payment_update paymentId data w1 of
                                     Inl e \<Rightarrow> (Inl e, w1)
                                   | Inr w2 \<Rightarrow> (Inr (data payment), w2))))))"

text \<open>The loop of \<^verbatim>\<open>handlePaymentSuccess\<close>: each product is read again in the transaction.\<close>

fun handlePaymentSuccess_items :: "OrderItem list \<Rightarrow> world \<Rightarrow> error + world" where
  "handlePaymentSuccess_items [] tx = Inr tx"
| "handlePaymentSuccess_items (item # rest) tx =
     (case products tx (item_productId item) of
        None \<Rightarrow> Inl (PaymentError (''Product '' @ item_productId item @ '' not found''))
      | Some product \<Rightarrow>
          if product_stock product < item_quantity item
          then Inl (PaymentError (''Insufficient stock for product '' @ product_name product @
                 ''. Available: '' @ show_int (product_stock product) @
                 '', Required: '' @ show_int (item_quantity item)))
          else (case product_decrement (item_productId item) (item_quantity item) tx of
                  Inl e \<Rightarrow> Inl e
                | Inr tx' \<Rightarrow> handlePaymentSuccess_items rest tx'))"

definition handlePaymentSuccess :: "string \<Rightarrow> PaymentIntent \<Rightarrow> world \<Rightarrow> (error + unit) \<times> world" where
  "handlePaymentSuccess now paymentIntent w =
     (let transactionId = intent_id paymentIntent
      in case findFirst_payment transactionId (payments w) of
           None \<Rightarrow> (Inr (), w)
         | Some payment \<Rightarrow>
             if payment_status payment = PaymentStatus_SUCCESS
             then (Inr (), w)
             else transaction (\<lambda>tx.
               case payment_update (payment_id payment)
                      (\<lambda>p. p\<lparr>payment_status := PaymentStatus_SUCCESS,
                            payment_rawResponse :=
                              Some (AList.update ''webhookEvent''
                                     (JObj [(''type'', JStr ''payment_intent.succeeded''),
                                            (''amount'', intent_amount paymentIntent),
                                            (''status'', intent_status paymentIntent),
                                            (''processedAt'', JStr now)])
                                     (spread (payment_rawResponse payment)))\<rparr>) tx of
                 Inl e \<Rightarrow> Inl e
               | Inr tx1 \<Rightarrow>
                  (case order_update (payment_orderId payment)
                          (\<lambda>ord. ord\<lparr>order_status := PAID\<rparr>) tx1 of
                     Inl e \<Rightarrow> Inl e
                   | Inr tx2 \<Rightarrow>
                      (case orders w (payment_orderId payment) of
                         None \<Rightarrow> Inl (TypeError ''payment.order is null'')
                       | Some ord \<Rightarrow>
                          (case handlePaymentSuccess_items (order_items ord) tx2 of
                             Inl e \<Rightarrow> Inl e
                           | Inr tx3 \<Rightarrow> Inr ((), tx3))))) w)"

definition handlePaymentFailed :: "string \<Rightarrow> PaymentIntent \<Rightarrow> world \<Rightarrow> (error + unit) \<times> world" where
  "handlePaymentFailed now paymentIntent w =
     (let transactionId = intent_id paymentIntent
      in case findFirst_payment transactionId (payments w) of
           None \<Rightarrow> (Inr (), w)
         | Some payment \<Rightarrow>
            (case payment_update (payment_id payment)
                    (\<lambda>p. p\<lparr>payment_status := PaymentStatus_FAILED,
                          payment_rawResponse :=
                            Some (AList.update ''webhookEvent''
                                   (JObj [(''type'', JStr ''payment_intent.payment_failed''),
                                          (''error'', intent_last_payment_error paymentIntent),
                                          (''processedAt'', JStr now)])
                                   (spread (payment_rawResponse payment)))\<rparr>) w of
               Inl e \<Rightarrow> (Inl e, w)
             | Inr w1 \<Rightarrow> (Inr (), w1)))"

definition handlePaymentCanceled :: "string \<Rightarrow> PaymentIntent \<Rightarrow> world \<Rightarrow> (error + unit) \<times> world" where
  "handlePaymentCanceled now paymentIntent w =
     (let transactionId = intent_id paymentIntent
      in case findFirst_payment transactionId (payments w) of
           None \<Rightarrow> (Inr (), w)
         | Some payment \<Rightarrow>
             transaction (\<lambda>tx.
               case payment_update (payment_id payment)
                      (\<lambda>p. p\<lparr>payment_status := PaymentStatus_FAILED,
                            payment_rawResponse :=
                              Some (AList.update ''webhookEvent''
                                     (JObj [(''type'', JStr ''payment_intent.canceled''),
                                            (''processedAt'', JStr now)])
                                     (spread (payment_rawResponse payment)))\<rparr>) tx of
                 Inl e \<Rightarrow> Inl e
               | Inr tx1 \<Rightarrow>
                  (case order_update (payment_orderId payment)
                          (\<lambda>ord. ord\<lparr>order_status := CANCELED\<rparr>) tx1 of
                     Inl e \<Rightarrow> Inl e
                   | Inr tx2 \<Rightarrow> Inr ((), tx2))) w)"

record WebhookAck =
  received :: bool

text \<open>
  \<^verbatim>\<open>handleStripeWebhook(payload, signature)\<close>: the signature check, then the switch on
  the event type; an event of another type is only logged.
\<close>

definition handleStripeWebhook ::
  "gateway \<Rightarrow> string \<Rightarrow> string \<Rightarrow> string \<Rightarrow> world \<Rightarrow> (error + WebhookAck) \<times> world" where
  "handleStripeWebhook gw now payload signature w =
     (case getStrategy ''stripe'' of
        Inl e \<Rightarrow> (Inl e, w)
      | Inr strategy \<Rightarrow>
          if strategy \<noteq> STRIPE
          then (Inl (PaymentError ''Invalid payment strategy for webhook handling''), w)
          else (case gw_constructPaymentIntent gw payload signature of
                  Inl e \<Rightarrow> (Inl e, w)
                | Inr event \<Rightarrow>
                   (case (if event_type event = ''payment_intent.succeeded''
                          then handlePaymentSuccess now (event_object event) w
                          else if event_type event = ''payment_intent.payment_failed''
                          then handlePaymentFailed now (event_object event) w
                          else if event_type event = ''payment_intent.canceled''
                          then handlePaymentCanceled now (event_object event) w
                          else (Inr (), w)) of
                      (Inl e, w') \<Rightarrow> (Inl e, w')
                    | (Inr _, w') \<Rightarrow> (Inr \<lparr>received = True\<rparr>, w'))))"

section \<open>Example data\<close>

text \<open>
  A small store used to run the operations on concrete inputs: one product with ten units
  in stock, one order for three of them, and a provider that accepts everything.
\<close>

definition example_product :: Product where
  "example_product =
     \<lparr>product_name = ''Widget'', product_price = 5, product_stock = 10, product_status = ACTIVE\<rparr>"

definition example_order :: "OrderStatus \<Rightarrow> Order" where
  "example_order status =
     \<lparr>order_userId = ''u1'', order_totalAmount = 15, order_status = status,
      order_items = [\<lparr>item_productId = ''p1'', item_quantity = 3, item_price = 5,
                      item_subtotal = 15\<rparr>]\<rparr>"

definition example_payment :: "PaymentProvider \<Rightarrow> PaymentStatus \<Rightarrow> Payment" where
  "example_payment provider status =
     \<lparr>payment_id = ''pay1'', payment_orderId = ''o1'', payment_provider = provider,
      payment_transactionId = Some ''pi_1'', payment_status = status,
      payment_rawResponse = Some [(''clientSecret'', JStr ''cs_1''), (''redirectUrl'', JUndefined)]\<rparr>"

definition example_world :: "OrderStatus \<Rightarrow> Payment list \<Rightarrow> world" where
  "example_world status ps =
     \<lparr>products = [''p1'' \<mapsto> example_product],
      orders = [''o1'' \<mapsto> example_order status],
      payments = ps,
      provider_calls = []\<rparr>"

definition example_intent :: PaymentIntent where
  "example_intent =
     \<lparr>intent_id = ''pi_1'', intent_amount = JNum 1500, intent_status = JStr ''succeeded'',
      intent_last_payment_error = JNull\<rparr>"

text \<open>
  The example provider: every remote operation succeeds, and a payload signed
  \<open>''valid''\<close> is an event of the type the payload names, for the intent \<open>pi_1\<close>.
\<close>

definition example_gateway :: gateway where
  "example_gateway =
     \<lparr>gw_initiatePayment = (\<lambda>strategy paymentData.
        Inr \<lparr>result_success = True, result_paymentId = Some ''pi_1'',
             result_clientSecret = Some ''cs_1'', result_redirectUrl = None,
             result_error = None\<rparr>),
      gw_verifyPayment = (\<lambda>strategy transactionId.
        Inr \<lparr>verification_verified = True, verification_status = Some ''succeeded'',
             verification_transactionId = Some transactionId, verification_amount = None,
             verification_message = None\<rparr>),
      gw_refundPayment = (\<lambda>strategy transactionId amount.
        Inr \<lparr>refund_success = True, refund_refundId = Some ''re_1''\<rparr>),
      gw_constructPaymentIntent = (\<lambda>payload signature.
        if signature = ''valid''
        then Inr \<lparr>event_type = payload, event_object = example_intent\<rparr>
        else Inl (PaymentError ''Invalid webhook signature''))\<rparr>"

text \<open>
  A second store: the order asks for three Widgets (ten in stock) and two Gadgets (one in
  stock).
\<close>

definition example_short_world :: "OrderStatus \<Rightarrow> PaymentStatus \<Rightarrow> world" where
  "example_short_world order_st payment_st =
     \<lparr>products = [''p1'' \<mapsto> example_product,
                  ''p2'' \<mapsto> \<lparr>product_name = ''Gadget'', product_price = 2, product_stock = 1,
                               product_status = ACTIVE\<rparr>],
      orders = [''o1'' \<mapsto>
        \<lparr>order_userId = ''u1'', order_totalAmount = 19, order_status = order_st,
         order_items = [\<lparr>item_productId = ''p1'', item_quantity = 3, item_price = 5,
                         item_subtotal = 15\<rparr>,
                        \<lparr>item_productId = ''p2'', item_quantity = 2, item_price = 2,
                         item_subtotal = 4\<rparr>]\<rparr>],
      payments = [example_payment STRIPE payment_st],
      provider_calls = []\<rparr>"

definition example_declining_gateway :: gateway where
  "example_declining_gateway =
     example_gateway\<lparr>gw_verifyPayment := (\<lambda>strategy transactionId.
        Inr \<lparr>verification_verified = False, verification_status = Some ''failed'',
             verification_transactionId = None, verification_amount = None,
             verification_message = None\<rparr>)\<rparr>"

section \<open>Basic facts\<close>

lemma getStrategy_provider:
  "getStrategy (toLowerCase (PaymentProvider_str provider)) = Inr provider"
  by (cases provider) (simp_all add: getStrategy_def toLowerCase_def toLowerCase_char_def)

lemma getStrategy_stripe: "getStrategy ''stripe'' = Inr STRIPE"
  by (simp add: getStrategy_def toLowerCase_def toLowerCase_char_def)

lemmas example_defs =
  example_world_def example_order_def example_payment_def example_product_def
  example_gateway_def example_intent_def example_declining_gateway_def

lemmas store_defs =
  findUnique_payment_def findFirst_payment_def payment_update_def order_update_def
  product_decrement_def transaction_def spread_def string_or_def refundAmount_def
  json_of_string_option_def json_of_rat_option_def getStrategy_def toLowerCase_def
  toLowerCase_char_def Let_def

lemmas webhook_defs =
  handleStripeWebhook_def handlePaymentSuccess_def handlePaymentFailed_def
  handlePaymentCanceled_def show_int_def show_nat.simps

lemmas verify_defs =
  verifyPayment_def reduceStock_def json_of_verification_def

lemmas order_defs =
  createOrder_def createOrderSchema_issues_def findMany_products_def Decimal_multiply_def

lemma findUnique_payment_map:
  assumes "\<And>p. payment_id (f p) = payment_id p"
  shows "findUnique_payment i (map (\<lambda>p. if payment_id p = i then f p else p) ps) =
         map_option f (findUnique_payment i ps)"
  using assms by (induction ps) (simp_all add: findUnique_payment_def)

section \<open>The stock loops\<close>

lemma distinct_productId_Cons:
  "distinct (map item_productId (a # rest)) \<Longrightarrow> item \<in> set rest \<Longrightarrow>
     item_productId item \<noteq> item_productId a"
  by (metis distinct.simps(2) imageI list.simps(9) set_map)

lemma handlePaymentSuccess_items_ok:
  assumes "distinct (map item_productId items)"
      and "\<forall>item\<in>set items. \<exists>p. products tx (item_productId item) = Some p \<and>
             item_quantity item \<le> product_stock p"
  shows "\<exists>tx'. handlePaymentSuccess_items items tx = Inr tx' \<and>
           orders tx' = orders tx \<and> payments tx' = payments tx \<and>
           provider_calls tx' = provider_calls tx \<and>
           (\<forall>item\<in>set items. products tx' (item_productId item) =
              map_option (\<lambda>p. p\<lparr>product_stock := product_stock p - item_quantity item\<rparr>)
                (products tx (item_productId item))) \<and>
           (\<forall>i. i \<notin> item_productId ` set items \<longrightarrow> products tx' i = products tx i)"
  using assms
proof (induction items arbitrary: tx)
  case Nil
  then show ?case by simp
next
  case (Cons a rest)
  from Cons.prems(2) obtain p where p: "products tx (item_productId a) = Some p"
    and enough: "item_quantity a \<le> product_stock p"
    by auto
  define tx1 where "tx1 = tx\<lparr>products := (products tx)(item_productId a \<mapsto>
      p\<lparr>product_stock := product_stock p - item_quantity a\<rparr>)\<rparr>"
  have notin: "item_productId a \<notin> item_productId ` set rest"
    using Cons.prems(1) by auto
  have differ: "\<And>item. item \<in> set rest \<Longrightarrow> item_productId item \<noteq> item_productId a"
    using Cons.prems(1) by (rule distinct_productId_Cons)
  have same: "\<And>item. item \<in> set rest \<Longrightarrow>
      products tx1 (item_productId item) = products tx (item_productId item)"
    by (simp add: tx1_def differ)
  have "\<forall>item\<in>set rest. \<exists>q. products tx1 (item_productId item) = Some q \<and>
          item_quantity item \<le> product_stock q"
    using Cons.prems(2) same by simp
  moreover have "distinct (map item_productId rest)"
    using Cons.prems(1) by simp
  ultimately obtain tx' where run: "handlePaymentSuccess_items rest tx1 = Inr tx'"
    and frame: "orders tx' = orders tx1" "payments tx' = payments tx1"
      "provider_calls tx' = provider_calls tx1"
    and dec: "\<forall>item\<in>set rest. products tx' (item_productId item) =
        map_option (\<lambda>p. p\<lparr>product_stock := product_stock p - item_quantity item\<rparr>)
          (products tx1 (item_productId item))"
    and others: "\<forall>i. i \<notin> item_productId ` set rest \<longrightarrow> products tx' i = products tx1 i"
    using Cons.IH [of tx1] by blast
  have step: "handlePaymentSuccess_items (a # rest) tx = Inr tx'"
    using p enough run by (simp add: product_decrement_def tx1_def)
  have head: "products tx' (item_productId a) =
      map_option (\<lambda>p. p\<lparr>product_stock := product_stock p - item_quantity a\<rparr>)
        (products tx (item_productId a))"
    using others notin p by (simp add: tx1_def)
  show ?case
    using step frame dec others head same
    by (auto simp: tx1_def)
qed


lemma reduceStock_items_live:
  assumes "distinct (map item_productId items)"
      and "\<forall>item\<in>set items. snapshot item = products tx (item_productId item)"
  shows "reduceStock_items (map (\<lambda>item. (item, snapshot item)) items) tx =
         handlePaymentSuccess_items items tx"
  using assms
proof (induction items arbitrary: tx)
  case Nil
  then show ?case by simp
next
  case (Cons a rest)
  have differ: "\<And>item. item \<in> set rest \<Longrightarrow> item_productId item \<noteq> item_productId a"
    using Cons.prems(1) by (rule distinct_productId_Cons)
  have head: "snapshot a = products tx (item_productId a)"
    using Cons.prems(2) by simp
  show ?case
  proof (cases "products tx (item_productId a)")
    case None
    then show ?thesis using head by simp
  next
    case (Some p)
    show ?thesis
    proof (cases "product_stock p < item_quantity a")
      case True
      then show ?thesis using head Some by simp
    next
      case False
      define tx1 where "tx1 = tx\<lparr>products := (products tx)(item_productId a \<mapsto>
        p\<lparr>product_stock := product_stock p - item_quantity a\<rparr>)\<rparr>"
      have "distinct (map item_productId rest)"
        using Cons.prems(1) by simp
      moreover have "\<forall>item\<in>set rest. snapshot item = products tx1 (item_productId item)"
        using Cons.prems(2) differ by (simp add: tx1_def)
      ultimately have "reduceStock_items (map (\<lambda>item. (item, snapshot item)) rest) tx1 =
          handlePaymentSuccess_items rest tx1"
        by (rule Cons.IH)
      then show ?thesis
        using head Some False by (simp add: product_decrement_def tx1_def)
    qed
  qed
qed

lemma handlePaymentSuccess_items_insufficient:
  assumes "distinct (map item_productId (pre @ bad # post))"
      and "\<forall>item\<in>set pre. \<exists>q. products tx (item_productId item) = Some q \<and>
             item_quantity item \<le> product_stock q"
      and "products tx (item_productId bad) = Some p"
      and "product_stock p < item_quantity bad"
  shows "handlePaymentSuccess_items (pre @ bad # post) tx =
           Inl (PaymentError (''Insufficient stock for product '' @ product_name p @
                 ''. Available: '' @ show_int (product_stock p) @
                 '', Required: '' @ show_int (item_quantity bad)))"
  using assms
proof (induction pre arbitrary: tx)
  case Nil
  then show ?case by simp
next
  case (Cons a pre)
  from Cons.prems(2) obtain q where q: "products tx (item_productId a) = Some q"
    and enough: "item_quantity a \<le> product_stock q"
    by auto
  define tx1 where "tx1 = tx\<lparr>products := (products tx)(item_productId a \<mapsto>
      q\<lparr>product_stock := product_stock q - item_quantity a\<rparr>)\<rparr>"
  have differ: "\<And>item. item \<in> set (pre @ bad # post) \<Longrightarrow>
      item_productId item \<noteq> item_productId a"
    using Cons.prems(1) distinct_productId_Cons [of a "pre @ bad # post"] by simp
  have "distinct (map item_productId (pre @ bad # post))"
    using Cons.prems(1) by simp
  moreover have "\<forall>item\<in>set pre. \<exists>q. products tx1 (item_productId item) = Some q \<and>
      item_quantity item \<le> product_stock q"
    using Cons.prems(2) differ by (simp add: tx1_def)
  moreover have "products tx1 (item_productId bad) = Some p"
    using Cons.prems(3) differ [of bad] by (simp add: tx1_def)
  ultimately have "handlePaymentSuccess_items (pre @ bad # post) tx1 =
      Inl (PaymentError (''Insufficient stock for product '' @ product_name p @
            ''. Available: '' @ show_int (product_stock p) @
            '', Required: '' @ show_int (item_quantity bad)))"
    using Cons.prems(4) by (rule Cons.IH)
  then show ?case
    using q enough by (simp add: product_decrement_def tx1_def)
qed

lemma findUnique_of_findFirst:
  assumes "distinct (map payment_id ps)"
      and "findFirst_payment t ps = Some p"
  shows "findUnique_payment (payment_id p) ps = Some p"
  using assms
proof (induction ps)
  case Nil
  then show ?case by (simp add: findFirst_payment_def)
next
  case (Cons x xs)
  show ?case
  proof (cases "payment_transactionId x = Some t")
    case True
    then have "p = x" using Cons.prems(2) by (simp add: findFirst_payment_def)
    then show ?thesis by (simp add: findUnique_payment_def)
  next
    case False
    then have inxs: "findFirst_payment t xs = Some p"
      using Cons.prems(2) by (simp add: findFirst_payment_def)
    then have "p \<in> set xs"
      by (auto simp: findFirst_payment_def find_Some_iff)
    then have "payment_id p \<in> payment_id ` set xs" by (rule imageI)
    moreover have "payment_id x \<notin> payment_id ` set xs"
      using Cons.prems(1) by simp
    ultimately have "payment_id x \<noteq> payment_id p" by metis
    moreover have "findUnique_payment (payment_id p) xs = Some p"
      using Cons.IH Cons.prems(1) inxs by simp
    ultimately show ?thesis by (simp add: findUnique_payment_def)
  qed
qed

lemma findFirst_payment_map:
  assumes "\<And>q. payment_transactionId (f q) = payment_transactionId q"
  shows "findFirst_payment t (map (\<lambda>q. if payment_id q = i then f q else q) ps) =
         map_option (\<lambda>q. if payment_id q = i then f q else q) (findFirst_payment t ps)"
  using assms by (induction ps) (simp_all add: findFirst_payment_def)

section \<open>Settlement by webhook\<close>

lemma payment_update_found:
  assumes "findUnique_payment i (payments w) = Some p"
  shows "payment_update i f w =
           Inr (w\<lparr>payments := map (\<lambda>q. if payment_id q = i then f q else q) (payments w)\<rparr>)"
  using assms by (simp add: payment_update_def)

lemma payment_id_map:
  assumes "\<And>q. payment_id (f q) = payment_id q"
  shows "map payment_id (map (\<lambda>q. if payment_id q = i then f q else q) ps) = map payment_id ps"
  using assms by (induction ps) simp_all

lemma handlePaymentSuccess_settles:
  assumes found: "findFirst_payment (intent_id paymentIntent) (payments w) = Some payment"
      and ids: "distinct (map payment_id (payments w))"
      and st: "payment_status payment \<noteq> PaymentStatus_SUCCESS"
      and ord: "orders w (payment_orderId payment) = Some ord"
      and dist: "distinct (map item_productId (order_items ord))"
      and enough: "\<forall>item\<in>set (order_items ord). \<exists>p.
             products w (item_productId item) = Some p \<and> item_quantity item \<le> product_stock p"
  shows "\<exists>updated w'. handlePaymentSuccess now paymentIntent w = (Inr (), w') \<and>
           findUnique_payment (payment_id payment) (payments w') = Some updated \<and>
           findFirst_payment (intent_id paymentIntent) (payments w') = Some updated \<and>
           payment_status updated = PaymentStatus_SUCCESS \<and>
           map payment_id (payments w') = map payment_id (payments w) \<and>
           orders w' = (orders w)(payment_orderId payment \<mapsto> ord\<lparr>order_status := PAID\<rparr>) \<and>
           provider_calls w' = provider_calls w \<and>
           (\<forall>item\<in>set (order_items ord). products w' (item_productId item) =
              map_option (\<lambda>p. p\<lparr>product_stock := product_stock p - item_quantity item\<rparr>)
                (products w (item_productId item))) \<and>
           (\<forall>i. i \<notin> item_productId ` set (order_items ord) \<longrightarrow> products w' i = products w i)"
proof -
  define data :: "Payment \<Rightarrow> Payment" where "data = (\<lambda>p. p\<lparr>payment_status := PaymentStatus_SUCCESS,
      payment_rawResponse :=
        Some (AList.update ''webhookEvent''
               (JObj [(''type'', JStr ''payment_intent.succeeded''),
                      (''amount'', intent_amount paymentIntent),
                      (''status'', intent_status paymentIntent),
                      (''processedAt'', JStr now)])
               (spread (payment_rawResponse payment)))\<rparr>)"
  define tx1 where "tx1 = w\<lparr>payments :=
      map (\<lambda>q. if payment_id q = payment_id payment then data q else q) (payments w)\<rparr>"
  define tx2 where "tx2 = tx1\<lparr>orders :=
      (orders tx1)(payment_orderId payment \<mapsto> ord\<lparr>order_status := PAID\<rparr>)\<rparr>"
  have keep_id: "\<And>q. payment_id (data q) = payment_id q"
    and keep_tid: "\<And>q. payment_transactionId (data q) = payment_transactionId q"
    by (simp_all add: data_def)
  have unique: "findUnique_payment (payment_id payment) (payments w) = Some payment"
    using ids found by (rule findUnique_of_findFirst)
  have upd1: "payment_update (payment_id payment) data w = Inr tx1"
    using unique by (simp add: payment_update_found tx1_def)
  have upd2: "order_update (payment_orderId payment) (\<lambda>ord. ord\<lparr>order_status := PAID\<rparr>) tx1 = Inr tx2"
    using ord by (simp add: order_update_def tx1_def tx2_def)
  have "\<forall>item\<in>set (order_items ord). \<exists>p.
      products tx2 (item_productId item) = Some p \<and> item_quantity item \<le> product_stock p"
    using enough by (simp add: tx1_def tx2_def)
  with dist obtain tx3 where loop: "handlePaymentSuccess_items (order_items ord) tx2 = Inr tx3"
    and frame: "orders tx3 = orders tx2" "payments tx3 = payments tx2"
      "provider_calls tx3 = provider_calls tx2"
    and dec: "\<forall>item\<in>set (order_items ord). products tx3 (item_productId item) =
        map_option (\<lambda>p. p\<lparr>product_stock := product_stock p - item_quantity item\<rparr>)
          (products tx2 (item_productId item))"
    and others: "\<forall>i. i \<notin> item_productId ` set (order_items ord) \<longrightarrow>
        products tx3 i = products tx2 i"
    using handlePaymentSuccess_items_ok [of "order_items ord" tx2] by blast
  have run: "handlePaymentSuccess now paymentIntent w = (Inr (), tx3)"
    using found st ord upd1 upd2 loop
    by (simp add: handlePaymentSuccess_def transaction_def data_def)
  have u1: "findUnique_payment (payment_id payment) (payments tx3) = Some (data payment)"
    using unique keep_id by (simp add: frame tx2_def tx1_def findUnique_payment_map)
  have u2: "findFirst_payment (intent_id paymentIntent) (payments tx3) = Some (data payment)"
    using found keep_tid by (simp add: frame tx2_def tx1_def findFirst_payment_map)
  have u3: "map payment_id (payments tx3) = map payment_id (payments w)"
    using keep_id by (simp add: frame tx2_def tx1_def payment_id_map)
  have u4: "payment_status (data payment) = PaymentStatus_SUCCESS"
    by (simp add: data_def)
  have u5: "orders tx3 = (orders w)(payment_orderId payment \<mapsto> ord\<lparr>order_status := PAID\<rparr>)"
    by (simp add: frame tx2_def tx1_def)
  have u6: "provider_calls tx3 = provider_calls w"
    by (simp add: frame tx2_def tx1_def)
  have u7: "\<forall>item\<in>set (order_items ord). products tx3 (item_productId item) =
        map_option (\<lambda>p. p\<lparr>product_stock := product_stock p - item_quantity item\<rparr>)
          (products w (item_productId item))"
    using dec by (simp add: tx2_def tx1_def)
  have u8: "\<forall>i. i \<notin> item_productId ` set (order_items ord) \<longrightarrow> products tx3 i = products w i"
    using others by (simp add: tx2_def tx1_def)
  show ?thesis
    using run u1 u2 u3 u4 u5 u6 u7 u8 by blast
qed


lemma findUnique_payment_member:
  assumes "p \<in> set ps"
  shows "\<exists>q. findUnique_payment (payment_id p) ps = Some q"
  using assms by (induction ps) (auto simp: findUnique_payment_def)

lemma findFirst_payment_member:
  assumes "findFirst_payment t ps = Some p"
  shows "p \<in> set ps"
  using assms by (auto simp: findFirst_payment_def find_Some_iff)

lemma handlePaymentSuccess_insufficient:
  assumes found: "findFirst_payment (intent_id paymentIntent) (payments w) = Some payment"
      and st: "payment_status payment \<noteq> PaymentStatus_SUCCESS"
      and ord: "orders w (payment_orderId payment) = Some ord"
      and items: "order_items ord = pre @ bad # post"
      and dist: "distinct (map item_productId (order_items ord))"
      and pre: "\<forall>item\<in>set pre. \<exists>q. products w (item_productId item) = Some q \<and>
                 item_quantity item \<le> product_stock q"
      and bad: "products w (item_productId bad) = Some p" "product_stock p < item_quantity bad"
  shows "handlePaymentSuccess now paymentIntent w =
           (Inl (PaymentError (''Insufficient stock for product '' @ product_name p @
                  ''. Available: '' @ show_int (product_stock p) @
                  '', Required: '' @ show_int (item_quantity bad))), w)"
proof -
  define data :: "Payment \<Rightarrow> Payment" where "data = (\<lambda>p. p\<lparr>payment_status := PaymentStatus_SUCCESS,
      payment_rawResponse :=
        Some (AList.update ''webhookEvent''
               (JObj [(''type'', JStr ''payment_intent.succeeded''),
                      (''amount'', intent_amount paymentIntent),
                      (''status'', intent_status paymentIntent),
                      (''processedAt'', JStr now)])
               (spread (payment_rawResponse payment)))\<rparr>)"
  define tx1 where "tx1 = w\<lparr>payments :=
      map (\<lambda>q. if payment_id q = payment_id payment then data q else q) (payments w)\<rparr>"
  define tx2 where "tx2 = tx1\<lparr>orders :=
      (orders tx1)(payment_orderId payment \<mapsto> ord\<lparr>order_status := PAID\<rparr>)\<rparr>"
  obtain q where "findUnique_payment (payment_id payment) (payments w) = Some q"
    using findUnique_payment_member [OF findFirst_payment_member [OF found]] by blast
  then have upd1: "payment_update (payment_id payment) data w = Inr tx1"
    by (simp add: payment_update_found tx1_def)
  have upd2: "order_update (payment_orderId payment) (\<lambda>ord. ord\<lparr>order_status := PAID\<rparr>) tx1 = Inr tx2"
    using ord by (simp add: order_update_def tx1_def tx2_def)
  have "distinct (map item_productId (pre @ bad # post))"
    using dist items by simp
  moreover have "\<forall>item\<in>set pre. \<exists>q. products tx2 (item_productId item) = Some q \<and>
      item_quantity item \<le> product_stock q"
    using pre by (simp add: tx1_def tx2_def)
  moreover have "products tx2 (item_productId bad) = Some p"
    using bad(1) by (simp add: tx1_def tx2_def)
  ultimately have loop: "handlePaymentSuccess_items (order_items ord) tx2 =
      Inl (PaymentError (''Insufficient stock for product '' @ product_name p @
            ''. Available: '' @ show_int (product_stock p) @
            '', Required: '' @ show_int (item_quantity bad)))"
    unfolding items using bad(2) by (rule handlePaymentSuccess_items_insufficient)
  show ?thesis
    using found st ord upd1 upd2 loop
    by (simp add: handlePaymentSuccess_def transaction_def data_def)
qed

lemma handlePaymentSuccess_already_processed:
  assumes "findFirst_payment (intent_id paymentIntent) (payments w) = Some payment"
      and "payment_status payment = PaymentStatus_SUCCESS"
  shows "handlePaymentSuccess now paymentIntent w = (Inr (), w)"
  using assms by (simp add: handlePaymentSuccess_def)

lemma handleStripeWebhook_succeeded:
  assumes "gw_constructPaymentIntent gw payload signature = Inr event"
      and "event_type event = ''payment_intent.succeeded''"
  shows "handleStripeWebhook gw now payload signature w =
           (case handlePaymentSuccess now (event_object event) w of
              (Inl e, w') \<Rightarrow> (Inl e, w')
            | (Inr u, w') \<Rightarrow> (Inr \<lparr>received = True\<rparr>, w'))"
  using assms by (simp add: handleStripeWebhook_def getStrategy_stripe)

section \<open>Settlement by verification\<close>

lemma getStrategy_literal:
  "getStrategy (toLowerCase ''STRIPE'') = Inr STRIPE"
  "getStrategy (toLowerCase ''BKASH'') = Inr BKASH"
  using getStrategy_provider [of STRIPE] getStrategy_provider [of BKASH] by simp_all

lemma reduceStock_items_frame:
  assumes "reduceStock_items xs tx = Inr tx'"
  shows "orders tx' = orders tx \<and> payments tx' = payments tx \<and>
         provider_calls tx' = provider_calls tx"
  using assms
proof (induction xs arbitrary: tx)
  case Nil
  then show ?case by simp
next
  case (Cons x xs)
  obtain item snapshot where x: "x = (item, snapshot)" by (cases x)
  show ?case
    using Cons.prems Cons.IH
    by (auto simp: x product_decrement_def split: option.splits if_splits)
qed

lemma reduceStock_frame:
  assumes "reduceStock orderId tx = Inr tx'"
  shows "orders tx' = orders tx \<and> payments tx' = payments tx \<and>
         provider_calls tx' = provider_calls tx"
  using assms reduceStock_items_frame
  by (auto simp: reduceStock_def split: option.splits)

lemma reduceStock_ok:
  assumes ord: "orders tx orderId = Some ord"
      and dist: "distinct (map item_productId (order_items ord))"
      and enough: "\<forall>item\<in>set (order_items ord). \<exists>p.
             products tx (item_productId item) = Some p \<and> item_quantity item \<le> product_stock p"
  shows "\<exists>tx'. reduceStock orderId tx = Inr tx' \<and>
           orders tx' = orders tx \<and> payments tx' = payments tx \<and>
           provider_calls tx' = provider_calls tx \<and>
           (\<forall>item\<in>set (order_items ord). products tx' (item_productId item) =
              map_option (\<lambda>p. p\<lparr>product_stock := product_stock p - item_quantity item\<rparr>)
                (products tx (item_productId item))) \<and>
           (\<forall>i. i \<notin> item_productId ` set (order_items ord) \<longrightarrow> products tx' i = products tx i)"
proof -
  have "reduceStock orderId tx = handlePaymentSuccess_items (order_items ord) tx"
    using ord reduceStock_items_live [OF dist, of "\<lambda>item. products tx (item_productId item)" tx]
    by (simp add: reduceStock_def)
  then show ?thesis
    using handlePaymentSuccess_items_ok [OF dist enough] by simp
qed


lemma verifyPayment_bkash_verified:
  assumes found: "findUnique_payment paymentId (payments w) = Some payment"
      and prov: "payment_provider payment = BKASH"
      and tid: "payment_transactionId payment = Some transactionId" "transactionId \<noteq> []"
      and gwr: "gw_verifyPayment gw BKASH transactionId = Inr verification"
               "verification_verified verification"
      and ord: "orders w (payment_orderId payment) = Some ord"
      and dist: "distinct (map item_productId (order_items ord))"
      and enough: "\<forall>item\<in>set (order_items ord). \<exists>p.
             products w (item_productId item) = Some p \<and> item_quantity item \<le> product_stock p"
  shows "\<exists>updated w'. verifyPayment gw now paymentId w = (Inr updated, w') \<and>
           findUnique_payment paymentId (payments w') = Some updated \<and>
           payment_status updated = PaymentStatus_SUCCESS \<and>
           orders w' = (orders w)(payment_orderId payment \<mapsto> ord\<lparr>order_status := PAID\<rparr>) \<and>
           provider_calls w' = provider_calls w @ [VerifyCall BKASH transactionId] \<and>
           (\<forall>item\<in>set (order_items ord). products w' (item_productId item) =
              map_option (\<lambda>p. p\<lparr>product_stock := product_stock p - item_quantity item\<rparr>)
                (products w (item_productId item))) \<and>
           (\<forall>i. i \<notin> item_productId ` set (order_items ord) \<longrightarrow> products w' i = products w i)"
proof -
  define data :: "Payment \<Rightarrow> Payment" where "data = (\<lambda>p. p\<lparr>payment_status := PaymentStatus_SUCCESS,
      payment_transactionId :=
        Some (string_or (verification_transactionId verification) transactionId),
      payment_rawResponse :=
        Some (AList.update ''verifiedAt'' (JStr now)
               (AList.update ''verificationResult'' (json_of_verification verification)
                  (spread (payment_rawResponse payment))))\<rparr>)"
  define w1 where "w1 = w\<lparr>provider_calls := provider_calls w @ [VerifyCall BKASH transactionId]\<rparr>"
  define tx1 where "tx1 = w1\<lparr>payments :=
      map (\<lambda>q. if payment_id q = paymentId then data q else q) (payments w1)\<rparr>"
  define tx2 where "tx2 = tx1\<lparr>orders :=
      (orders tx1)(payment_orderId payment \<mapsto> ord\<lparr>order_status := PAID\<rparr>)\<rparr>"
  have keep_id: "\<And>q. payment_id (data q) = payment_id q"
    by (simp add: data_def)
  have upd1: "payment_update paymentId data w1 = Inr tx1"
    using found by (simp add: payment_update_found tx1_def w1_def)
  have upd2: "order_update (payment_orderId payment) (\<lambda>ord. ord\<lparr>order_status := PAID\<rparr>) tx1 = Inr tx2"
    using ord by (simp add: order_update_def tx1_def tx2_def w1_def)
  have "orders tx2 (payment_orderId payment) = Some (ord\<lparr>order_status := PAID\<rparr>)"
    by (simp add: tx2_def)
  moreover have "distinct (map item_productId (order_items (ord\<lparr>order_status := PAID\<rparr>)))"
    using dist by simp
  moreover have "\<forall>item\<in>set (order_items (ord\<lparr>order_status := PAID\<rparr>)). \<exists>p.
      products tx2 (item_productId item) = Some p \<and> item_quantity item \<le> product_stock p"
    using enough by (simp add: tx1_def tx2_def w1_def)
  ultimately obtain tx3 where loop: "reduceStock (payment_orderId payment) tx2 = Inr tx3"
    and frame: "orders tx3 = orders tx2" "payments tx3 = payments tx2"
      "provider_calls tx3 = provider_calls tx2"
    and dec: "\<forall>item\<in>set (order_items ord). products tx3 (item_productId item) =
        map_option (\<lambda>p. p\<lparr>product_stock := product_stock p - item_quantity item\<rparr>)
          (products tx2 (item_productId item))"
    and others: "\<forall>i. i \<notin> item_productId ` set (order_items ord) \<longrightarrow>
        products tx3 i = products tx2 i"
    using reduceStock_ok [of tx2 "payment_orderId payment" "ord\<lparr>order_status := PAID\<rparr>"]
    by auto
  have run: "verifyPayment gw now paymentId w = (Inr (data payment), tx3)"
    using found prov tid gwr upd1 upd2 loop
    by (simp add: verifyPayment_def getStrategy_literal string_or_def transaction_def
          data_def w1_def)
  have u1: "findUnique_payment paymentId (payments tx3) = Some (data payment)"
    using found keep_id by (simp add: frame tx2_def tx1_def w1_def findUnique_payment_map)
  have u2: "payment_status (data payment) = PaymentStatus_SUCCESS"
    by (simp add: data_def)
  have u3: "orders tx3 = (orders w)(payment_orderId payment \<mapsto> ord\<lparr>order_status := PAID\<rparr>)"
    by (simp add: frame tx2_def tx1_def w1_def)
  have u4: "provider_calls tx3 = provider_calls w @ [VerifyCall BKASH transactionId]"
    by (simp add: frame tx2_def tx1_def w1_def)
  have u5: "\<forall>item\<in>set (order_items ord). products tx3 (item_productId item) =
        map_option (\<lambda>p. p\<lparr>product_stock := product_stock p - item_quantity item\<rparr>)
          (products w (item_productId item))"
    using dec by (simp add: tx2_def tx1_def w1_def)
  have u6: "\<forall>i. i \<notin> item_productId ` set (order_items ord) \<longrightarrow> products tx3 i = products w i"
    using others by (simp add: tx2_def tx1_def w1_def)
  show ?thesis
    using run u1 u2 u3 u4 u5 u6 by blast
qed

lemma verifyPayment_stripe_verified:
  assumes found: "findUnique_payment paymentId (payments w) = Some payment"
      and prov: "payment_provider payment = STRIPE"
      and tid: "payment_transactionId payment = Some transactionId" "transactionId \<noteq> []"
      and gwr: "gw_verifyPayment gw STRIPE transactionId = Inr verification"
               "verification_verified verification"
      and ord: "orders w (payment_orderId payment) = Some ord"
  shows "\<exists>updated w'. verifyPayment gw now paymentId w = (Inr updated, w') \<and>
           findUnique_payment paymentId (payments w') = Some updated \<and>
           payment_status updated = PaymentStatus_SUCCESS \<and>
           orders w' = (orders w)(payment_orderId payment \<mapsto> ord\<lparr>order_status := PAID\<rparr>) \<and>
           provider_calls w' = provider_calls w @ [VerifyCall STRIPE transactionId] \<and>
           products w' = products w"
  using assms
  by (simp add: verifyPayment_def getStrategy_literal string_or_def transaction_def
        payment_update_def order_update_def Let_def findUnique_payment_map)

lemma verifyPayment_not_verified:
  assumes found: "findUnique_payment paymentId (payments w) = Some payment"
      and tid: "payment_transactionId payment = Some transactionId" "transactionId \<noteq> []"
      and gwr: "gw_verifyPayment gw (payment_provider payment) transactionId = Inr verification"
               "\<not> verification_verified verification"
  shows "\<exists>updated w'. verifyPayment gw now paymentId w = (Inr updated, w') \<and>
           findUnique_payment paymentId (payments w') = Some updated \<and>
           payment_status updated = PaymentStatus_FAILED \<and>
           orders w' = orders w \<and>
           provider_calls w' = provider_calls w @
             [VerifyCall (payment_provider payment) transactionId] \<and>
           products w' = products w"
  using assms
  by (simp add: verifyPayment_def getStrategy_provider string_or_def transaction_def
        payment_update_def Let_def findUnique_payment_map)

section \<open>Insufficient stock at settlement\<close>

text \<open>
  C4 (as amended). A verified \<^verbatim>\<open>payment_intent.succeeded\<close> event for a payment that is
  found and is not already in SUCCESS status, whose order's line items reference distinct
  existing products of which at least one has less stock than the quantity ordered, fails
  with a payment error that names such a product, its available stock and the required
  quantity; the world is returned as it was: no stock, payment or order has changed.
\<close>

theorem webhook_insufficient_stock_rolls_back:
  assumes construct: "gw_constructPaymentIntent gw payload signature = Inr event"
      and type: "event_type event = ''payment_intent.succeeded''"
      and found: "findFirst_payment (intent_id (event_object event)) (payments w) = Some payment"
      and st: "payment_status payment \<noteq> PaymentStatus_SUCCESS"
      and ord: "orders w (payment_orderId payment) = Some ord"
      and dist: "distinct (map item_productId (order_items ord))"
      and exist: "\<forall>item\<in>set (order_items ord). products w (item_productId item) \<noteq> None"
      and short: "\<exists>item\<in>set (order_items ord). \<exists>p.
             products w (item_productId item) = Some p \<and> product_stock p < item_quantity item"
  shows "\<exists>bad p. bad \<in> set (order_items ord) \<and>
           products w (item_productId bad) = Some p \<and>
           product_stock p < item_quantity bad \<and>
           handleStripeWebhook gw now payload signature w =
             (Inl (PaymentError (''Insufficient stock for product '' @ product_name p @
                    ''. Available: '' @ show_int (product_stock p) @
                    '', Required: '' @ show_int (item_quantity bad))), w)"
proof -
  let ?short = "\<lambda>item. \<exists>p. products w (item_productId item) = Some p \<and>
      product_stock p < item_quantity item"
  from short obtain pre bad post where items: "order_items ord = pre @ bad # post"
    and bad: "?short bad" and first: "\<forall>item\<in>set pre. \<not> ?short item"
    using split_list_first_prop [of "order_items ord" ?short] by blast
  from bad obtain p where p: "products w (item_productId bad) = Some p"
    "product_stock p < item_quantity bad"
    by blast
  have pre: "\<forall>item\<in>set pre. \<exists>q. products w (item_productId item) = Some q \<and>
      item_quantity item \<le> product_stock q"
  proof
    fix item assume mem: "item \<in> set pre"
    then have "item \<in> set (order_items ord)" using items by simp
    then obtain q where q: "products w (item_productId item) = Some q"
      using exist by auto
    moreover have "\<not> product_stock q < item_quantity item"
      using first mem q by auto
    ultimately show "\<exists>q. products w (item_productId item) = Some q \<and>
        item_quantity item \<le> product_stock q"
      by auto
  qed
  have "handlePaymentSuccess now (event_object event) w =
      (Inl (PaymentError (''Insufficient stock for product '' @ product_name p @
             ''. Available: '' @ show_int (product_stock p) @
             '', Required: '' @ show_int (item_quantity bad))), w)"
    using found st ord items dist pre p by (rule handlePaymentSuccess_insufficient)
  then have "handleStripeWebhook gw now payload signature w =
      (Inl (PaymentError (''Insufficient stock for product '' @ product_name p @
             ''. Available: '' @ show_int (product_stock p) @
             '', Required: '' @ show_int (item_quantity bad))), w)"
    by (simp add: handleStripeWebhook_succeeded [OF construct type])
  moreover have "bad \<in> set (order_items ord)"
    using items by simp
  ultimately show ?thesis
    using p by blast
qed

theorem webhook_insufficient_stock_rolls_back_witness:
  "handleStripeWebhook example_gateway ''t1'' ''payment_intent.succeeded'' ''valid''
       (example_short_world PENDING PaymentStatus_PENDING) =
     (Inl (PaymentError ''Insufficient stock for product Gadget. Available: 1, Required: 2''),
      example_short_world PENDING PaymentStatus_PENDING)"
  using webhook_insufficient_stock_rolls_back
          [of example_gateway "''payment_intent.succeeded''" "''valid''"
              "\<lparr>event_type = ''payment_intent.succeeded'', event_object = example_intent\<rparr>"
              "example_short_world PENDING PaymentStatus_PENDING"
              "example_payment STRIPE PaymentStatus_PENDING"
              "\<lparr>order_userId = ''u1'', order_totalAmount = 19, order_status = PENDING,
                order_items = [\<lparr>item_productId = ''p1'', item_quantity = 3, item_price = 5,
                                item_subtotal = 15\<rparr>,
                               \<lparr>item_productId = ''p2'', item_quantity = 2, item_price = 2,
                                item_subtotal = 4\<rparr>]\<rparr>" "''t1''"]
  by (simp add: example_short_world_def example_defs store_defs webhook_defs)

theorem webhook_insufficient_stock_counterexample:
  "map_option product_stock
       (products (example_short_world PAID PaymentStatus_SUCCESS) ''p2'') = Some 1 \<and>
   map_option (map item_productId \<circ> order_items)
       (orders (example_short_world PAID PaymentStatus_SUCCESS) ''o1'') = Some [''p1'', ''p2''] \<and>
   map_option (map item_quantity \<circ> order_items)
       (orders (example_short_world PAID PaymentStatus_SUCCESS) ''o1'') = Some [3, 2] \<and>
   handleStripeWebhook example_gateway ''t1'' ''payment_intent.succeeded'' ''valid''
       (example_short_world PAID PaymentStatus_SUCCESS) =
     (Inr \<lparr>received = True\<rparr>, example_short_world PAID PaymentStatus_SUCCESS)"
  by (simp add: example_short_world_def example_defs store_defs webhook_defs)

section \<open>Success outcomes\<close>

text \<open>
  C3 (as amended). For a payment in PENDING status whose order's line items reference
  distinct products with sufficient stock: a verified \<^verbatim>\<open>payment_intent.succeeded\<close>
  event for it, and a verification of it that returns verified, both set the payment to
  SUCCESS and the order to PAID. The webhook decrements every ordered product's stock by
  its line item's quantity and changes no other product; the verification does so when
  the payment's provider is BKASH and leaves every product as it was when the provider is
  STRIPE.
\<close>

theorem success_outcome_settles:
  assumes pending: "payment_status payment = PaymentStatus_PENDING"
      and ord: "orders w (payment_orderId payment) = Some ord"
      and dist: "distinct (map item_productId (order_items ord))"
      and enough: "\<forall>item\<in>set (order_items ord). \<exists>p.
             products w (item_productId item) = Some p \<and> item_quantity item \<le> product_stock p"
  shows "(gw_constructPaymentIntent gw payload signature = Inr event \<and>
          event_type event = ''payment_intent.succeeded'' \<and>
          findFirst_payment (intent_id (event_object event)) (payments w) = Some payment \<and>
          distinct (map payment_id (payments w)) \<longrightarrow>
          (case handleStripeWebhook gw now payload signature w of
             (Inl e, w') \<Rightarrow> False
           | (Inr ack, w') \<Rightarrow>
               received ack \<and>
               map_option payment_status
                 (findUnique_payment (payment_id payment) (payments w')) =
                 Some PaymentStatus_SUCCESS \<and>
               map_option order_status (orders w' (payment_orderId payment)) = Some PAID \<and>
               (\<forall>item\<in>set (order_items ord). products w' (item_productId item) =
                  map_option (\<lambda>p. p\<lparr>product_stock := product_stock p - item_quantity item\<rparr>)
                    (products w (item_productId item))) \<and>
               (\<forall>i. i \<notin> item_productId ` set (order_items ord) \<longrightarrow>
                  products w' i = products w i))) \<and>
         (findUnique_payment paymentId (payments w) = Some payment \<and>
          payment_transactionId payment = Some transactionId \<and> transactionId \<noteq> [] \<and>
          gw_verifyPayment gw (payment_provider payment) transactionId = Inr verification \<and>
          verification_verified verification \<longrightarrow>
          (case verifyPayment gw now paymentId w of
             (Inl e, w') \<Rightarrow> False
           | (Inr updated, w') \<Rightarrow>
               findUnique_payment paymentId (payments w') = Some updated \<and>
               payment_status updated = PaymentStatus_SUCCESS \<and>
               map_option order_status (orders w' (payment_orderId payment)) = Some PAID \<and>
               (if payment_provider payment = BKASH
                then (\<forall>item\<in>set (order_items ord). products w' (item_productId item) =
                        map_option (\<lambda>p. p\<lparr>product_stock := product_stock p - item_quantity item\<rparr>)
                          (products w (item_productId item))) \<and>
                     (\<forall>i. i \<notin> item_productId ` set (order_items ord) \<longrightarrow>
                        products w' i = products w i)
                else products w' = products w)))"
proof (intro conjI impI)
  assume a: "gw_constructPaymentIntent gw payload signature = Inr event \<and>
      event_type event = ''payment_intent.succeeded'' \<and>
      findFirst_payment (intent_id (event_object event)) (payments w) = Some payment \<and>
      distinct (map payment_id (payments w))"
  have st: "payment_status payment \<noteq> PaymentStatus_SUCCESS"
    using pending by simp
  from a have found: "findFirst_payment (intent_id (event_object event)) (payments w) = Some payment"
    and ids: "distinct (map payment_id (payments w))"
    by simp_all
  obtain updated w' where run: "handlePaymentSuccess now (event_object event) w = (Inr (), w')"
    and u: "findUnique_payment (payment_id payment) (payments w') = Some updated"
      "payment_status updated = PaymentStatus_SUCCESS"
      "orders w' = (orders w)(payment_orderId payment \<mapsto> ord\<lparr>order_status := PAID\<rparr>)"
      "\<forall>item\<in>set (order_items ord). products w' (item_productId item) =
         map_option (\<lambda>p. p\<lparr>product_stock := product_stock p - item_quantity item\<rparr>)
           (products w (item_productId item))"
      "\<forall>i. i \<notin> item_productId ` set (order_items ord) \<longrightarrow> products w' i = products w i"
    using handlePaymentSuccess_settles [OF found ids st ord dist enough, of now] by blast
  have "handleStripeWebhook gw now payload signature w = (Inr \<lparr>received = True\<rparr>, w')"
    using a run by (simp add: handleStripeWebhook_succeeded)
  then show "case handleStripeWebhook gw now payload signature w of
             (Inl e, w') \<Rightarrow> False
           | (Inr ack, w') \<Rightarrow>
               received ack \<and>
               map_option payment_status
                 (findUnique_payment (payment_id payment) (payments w')) =
                 Some PaymentStatus_SUCCESS \<and>
               map_option order_status (orders w' (payment_orderId payment)) = Some PAID \<and>
               (\<forall>item\<in>set (order_items ord). products w' (item_productId item) =
                  map_option (\<lambda>p. p\<lparr>product_stock := product_stock p - item_quantity item\<rparr>)
                    (products w (item_productId item))) \<and>
               (\<forall>i. i \<notin> item_productId ` set (order_items ord) \<longrightarrow>
                  products w' i = products w i)"
    using u by simp
next
  assume a: "findUnique_payment paymentId (payments w) = Some payment \<and>
      payment_transactionId payment = Some transactionId \<and> transactionId \<noteq> [] \<and>
      gw_verifyPayment gw (payment_provider payment) transactionId = Inr verification \<and>
      verification_verified verification"
  then have found: "findUnique_payment paymentId (payments w) = Some payment"
    and tid: "payment_transactionId payment = Some transactionId" "transactionId \<noteq> []"
    and gwr: "gw_verifyPayment gw (payment_provider payment) transactionId = Inr verification"
      "verification_verified verification"
    by simp_all
  show "case verifyPayment gw now paymentId w of
             (Inl e, w') \<Rightarrow> False
           | (Inr updated, w') \<Rightarrow>
               findUnique_payment paymentId (payments w') = Some updated \<and>
               payment_status updated = PaymentStatus_SUCCESS \<and>
               map_option order_status (orders w' (payment_orderId payment)) = Some PAID \<and>
               (if payment_provider payment = BKASH
                then (\<forall>item\<in>set (order_items ord). products w' (item_productId item) =
                        map_option (\<lambda>p. p\<lparr>product_stock := product_stock p - item_quantity item\<rparr>)
                          (products w (item_productId item))) \<and>
                     (\<forall>i. i \<notin> item_productId ` set (order_items ord) \<longrightarrow>
                        products w' i = products w i)
                else products w' = products w)"
  proof (cases "payment_provider payment")
    case STRIPE
    then obtain updated w' where "verifyPayment gw now paymentId w = (Inr updated, w')"
      "findUnique_payment paymentId (payments w') = Some updated"
      "payment_status updated = PaymentStatus_SUCCESS"
      "orders w' = (orders w)(payment_orderId payment \<mapsto> ord\<lparr>order_status := PAID\<rparr>)"
      "products w' = products w"
      using verifyPayment_stripe_verified [OF found _ tid _ gwr(2) ord, of gw now] gwr(1)
      by auto
    then show ?thesis using STRIPE by simp
  next
    case BKASH
    then obtain updated w' where "verifyPayment gw now paymentId w = (Inr updated, w')"
      "findUnique_payment paymentId (payments w') = Some updated"
      "payment_status updated = PaymentStatus_SUCCESS"
      "orders w' = (orders w)(payment_orderId payment \<mapsto> ord\<lparr>order_status := PAID\<rparr>)"
      "\<forall>item\<in>set (order_items ord). products w' (item_productId item) =
         map_option (\<lambda>p. p\<lparr>product_stock := product_stock p - item_quantity item\<rparr>)
           (products w (item_productId item))"
      "\<forall>i. i \<notin> item_productId ` set (order_items ord) \<longrightarrow> products w' i = products w i"
      using verifyPayment_bkash_verified [OF found _ tid _ gwr(2) ord dist enough, of gw now]
        gwr(1)
      by auto
    then show ?thesis using BKASH by simp
  qed
qed

theorem success_outcome_settles_witness:
  "(case handleStripeWebhook example_gateway ''t1'' ''payment_intent.succeeded'' ''valid''
           (example_world PENDING [example_payment STRIPE PaymentStatus_PENDING]) of
      (Inl e, w') \<Rightarrow> False
    | (Inr ack, w') \<Rightarrow>
        received ack \<and>
        map_option payment_status (findUnique_payment ''pay1'' (payments w')) =
          Some PaymentStatus_SUCCESS \<and>
        map_option order_status (orders w' ''o1'') = Some PAID \<and>
        map_option product_stock (products w' ''p1'') = Some 7) \<and>
   (case verifyPayment example_gateway ''t1'' ''pay1''
           (example_world PENDING [example_payment BKASH PaymentStatus_PENDING]) of
      (Inl e, w') \<Rightarrow> False
    | (Inr updated, w') \<Rightarrow>
        payment_status updated = PaymentStatus_SUCCESS \<and>
        map_option order_status (orders w' ''o1'') = Some PAID \<and>
        map_option product_stock (products w' ''p1'') = Some 7)"
proof -
  have ord: "\<And>provider. orders (example_world PENDING [example_payment provider PaymentStatus_PENDING])
      (payment_orderId (example_payment provider PaymentStatus_PENDING)) = Some (example_order PENDING)"
    by (simp add: example_defs)
  have dist: "distinct (map item_productId (order_items (example_order PENDING)))"
    by (simp add: example_defs)
  have enough: "\<And>provider. \<forall>item\<in>set (order_items (example_order PENDING)). \<exists>p.
      products (example_world PENDING [example_payment provider PaymentStatus_PENDING])
        (item_productId item) = Some p \<and> item_quantity item \<le> product_stock p"
    by (simp add: example_defs)
  have pending: "\<And>provider. payment_status (example_payment provider PaymentStatus_PENDING) =
      PaymentStatus_PENDING"
    by (simp add: example_defs)
  note webhook = success_outcome_settles [OF pending [of STRIPE] ord [of STRIPE] dist enough [of STRIPE],
      where gw = example_gateway and payload = "''payment_intent.succeeded''"
        and signature = "''valid''"
        and event = "\<lparr>event_type = ''payment_intent.succeeded'', event_object = example_intent\<rparr>"
        and now = "''t1''" and paymentId = "''pay1''" and transactionId = "''pi_1''"
        and verification =
          "\<lparr>verification_verified = True, verification_status = Some ''succeeded'',
            verification_transactionId = Some ''pi_1'', verification_amount = None,
            verification_message = None\<rparr>", THEN conjunct1]
  note verify = success_outcome_settles [OF pending [of BKASH] ord [of BKASH] dist enough [of BKASH],
      where gw = example_gateway and payload = "''payment_intent.succeeded''"
        and signature = "''valid''"
        and event = "\<lparr>event_type = ''payment_intent.succeeded'', event_object = example_intent\<rparr>"
        and now = "''t1''" and paymentId = "''pay1''" and transactionId = "''pi_1''"
        and verification =
          "\<lparr>verification_verified = True, verification_status = Some ''succeeded'',
            verification_transactionId = Some ''pi_1'', verification_amount = None,
            verification_message = None\<rparr>", THEN conjunct2]
  show ?thesis
    using webhook verify
    by (simp add: example_defs store_defs webhook_defs verify_defs)
qed

theorem verifyPayment_stripe_counterexample:
  "payment_status (example_payment STRIPE PaymentStatus_PENDING) = PaymentStatus_PENDING \<and>
   map_option payment_status (findUnique_payment ''pay1'' (payments (snd
     (verifyPayment example_gateway ''t1'' ''pay1''
        (example_world PENDING [example_payment STRIPE PaymentStatus_PENDING]))))) =
     Some PaymentStatus_SUCCESS \<and>
   map_option order_status (orders (snd
     (verifyPayment example_gateway ''t1'' ''pay1''
        (example_world PENDING [example_payment STRIPE PaymentStatus_PENDING]))) ''o1'') =
     Some PAID \<and>
   map_option product_stock (products (snd
     (verifyPayment example_gateway ''t1'' ''pay1''
        (example_world PENDING [example_payment STRIPE PaymentStatus_PENDING]))) ''p1'') =
     Some 10"
  by (simp add: example_defs store_defs verify_defs)

section \<open>Duplicate success notifications\<close>

lemma duplicate_webhooks_after_success:
  assumes construct: "gw_constructPaymentIntent gw payload signature = Inr event"
      and type: "event_type event = ''payment_intent.succeeded''"
      and found: "findFirst_payment (intent_id (event_object event)) (payments w) = Some payment"
      and st: "payment_status payment = PaymentStatus_SUCCESS"
  shows "fold (\<lambda>now w. snd (handleStripeWebhook gw now payload signature w)) nows w = w"
proof (induction nows)
  case Nil
  then show ?case by simp
next
  case (Cons now nows)
  have "handleStripeWebhook gw now payload signature w = (Inr \<lparr>received = True\<rparr>, w)"
    using handlePaymentSuccess_already_processed [OF found st, of now]
    by (simp add: handleStripeWebhook_succeeded [OF construct type])
  then show ?case using Cons.IH by simp
qed

text \<open>
  C1 (as amended). For a payment in PENDING status whose order's line items reference
  distinct products with sufficient stock, any sequence of one or more deliveries of the
  same verified \<^verbatim>\<open>payment_intent.succeeded\<close> event (processed at the times \<open>nows\<close>)
  decrements every ordered product's stock by exactly its line item's quantity, once, and
  changes no other product.
\<close>

theorem duplicate_success_webhooks_decrement_once:
  assumes construct: "gw_constructPaymentIntent gw payload signature = Inr event"
      and type: "event_type event = ''payment_intent.succeeded''"
      and found: "findFirst_payment (intent_id (event_object event)) (payments w) = Some payment"
      and ids: "distinct (map payment_id (payments w))"
      and pending: "payment_status payment = PaymentStatus_PENDING"
      and ord: "orders w (payment_orderId payment) = Some ord"
      and dist: "distinct (map item_productId (order_items ord))"
      and enough: "\<forall>item\<in>set (order_items ord). \<exists>p.
             products w (item_productId item) = Some p \<and> item_quantity item \<le> product_stock p"
      and n: "nows \<noteq> []"
  shows "(\<forall>item\<in>set (order_items ord).
            products (fold (\<lambda>now w. snd (handleStripeWebhook gw now payload signature w)) nows w)
              (item_productId item) =
            map_option (\<lambda>p. p\<lparr>product_stock := product_stock p - item_quantity item\<rparr>)
              (products w (item_productId item))) \<and>
         (\<forall>i. i \<notin> item_productId ` set (order_items ord) \<longrightarrow>
            products (fold (\<lambda>now w. snd (handleStripeWebhook gw now payload signature w)) nows w) i =
            products w i)"
proof -
  obtain now rest where nows: "nows = now # rest"
    using n by (cases nows) auto
  have st: "payment_status payment \<noteq> PaymentStatus_SUCCESS"
    using pending by simp
  obtain updated w' where run: "handlePaymentSuccess now (event_object event) w = (Inr (), w')"
    and again: "findFirst_payment (intent_id (event_object event)) (payments w') = Some updated"
      "payment_status updated = PaymentStatus_SUCCESS"
    and dec: "\<forall>item\<in>set (order_items ord). products w' (item_productId item) =
         map_option (\<lambda>p. p\<lparr>product_stock := product_stock p - item_quantity item\<rparr>)
           (products w (item_productId item))"
      "\<forall>i. i \<notin> item_productId ` set (order_items ord) \<longrightarrow> products w' i = products w i"
    using handlePaymentSuccess_settles [OF found ids st ord dist enough, of now] by blast
  have first: "snd (handleStripeWebhook gw now payload signature w) = w'"
    using run by (simp add: handleStripeWebhook_succeeded [OF construct type])
  have "fold (\<lambda>now w. snd (handleStripeWebhook gw now payload signature w)) nows w = w'"
    using duplicate_webhooks_after_success [OF construct type again, of rest]
    by (simp add: nows first)
  then show ?thesis
    using dec by simp
qed

theorem duplicate_success_webhooks_decrement_once_witness:
  "map_option product_stock
     (products
        (fold (\<lambda>now w. snd (handleStripeWebhook example_gateway now
                               ''payment_intent.succeeded'' ''valid'' w))
           [''t1'', ''t2'', ''t3'']
           (example_world PENDING [example_payment STRIPE PaymentStatus_PENDING]))
        ''p1'') = Some 7"
proof -
  have construct: "gw_constructPaymentIntent example_gateway ''payment_intent.succeeded'' ''valid'' =
      Inr \<lparr>event_type = ''payment_intent.succeeded'', event_object = example_intent\<rparr>"
    by (simp add: example_defs)
  have type: "event_type \<lparr>event_type = ''payment_intent.succeeded'',
      event_object = example_intent\<rparr> = ''payment_intent.succeeded''"
    by simp
  have found: "findFirst_payment
      (intent_id (event_object \<lparr>event_type = ''payment_intent.succeeded'',
         event_object = example_intent\<rparr>))
      (payments (example_world PENDING [example_payment STRIPE PaymentStatus_PENDING])) =
      Some (example_payment STRIPE PaymentStatus_PENDING)"
    by (simp add: example_defs store_defs)
  have ids: "distinct (map payment_id
      (payments (example_world PENDING [example_payment STRIPE PaymentStatus_PENDING])))"
    by (simp add: example_defs)
  have pending: "payment_status (example_payment STRIPE PaymentStatus_PENDING) =
      PaymentStatus_PENDING"
    by (simp add: example_defs)
  have ord: "orders (example_world PENDING [example_payment STRIPE PaymentStatus_PENDING])
      (payment_orderId (example_payment STRIPE PaymentStatus_PENDING)) =
      Some (example_order PENDING)"
    by (simp add: example_defs)
  have dist: "distinct (map item_productId (order_items (example_order PENDING)))"
    by (simp add: example_defs)
  have enough: "\<forall>item\<in>set (order_items (example_order PENDING)). \<exists>p.
      products (example_world PENDING [example_payment STRIPE PaymentStatus_PENDING])
        (item_productId item) = Some p \<and> item_quantity item \<le> product_stock p"
    by (simp add: example_defs)
  have n: "[''t1'', ''t2'', ''t3''] \<noteq> []"
    by simp
  show ?thesis
    using duplicate_success_webhooks_decrement_once
            [OF construct type found ids pending ord dist enough n]
    by (simp add: example_defs)
qed

theorem duplicate_verification_counterexample:
  "payment_status (example_payment STRIPE PaymentStatus_PENDING) = PaymentStatus_PENDING \<and>
   map_option product_stock
     (products (example_world PENDING [example_payment STRIPE PaymentStatus_PENDING]) ''p1'') =
     Some 10 \<and>
   map_option (map item_quantity \<circ> order_items)
     (orders (example_world PENDING [example_payment STRIPE PaymentStatus_PENDING]) ''o1'') =
     Some [3] \<and>
   map_option payment_status
     (findUnique_payment ''pay1'' (payments (snd (verifyPayment example_gateway ''t2'' ''pay1''
        (snd (verifyPayment example_gateway ''t1'' ''pay1''
           (example_world PENDING [example_payment STRIPE PaymentStatus_PENDING]))))))) =
     Some PaymentStatus_SUCCESS \<and>
   map_option product_stock
     (products (snd (verifyPayment example_gateway ''t2'' ''pay1''
        (snd (verifyPayment example_gateway ''t1'' ''pay1''
           (example_world PENDING [example_payment STRIPE PaymentStatus_PENDING]))))) ''p1'') =
     Some 10"
  by (simp add: example_defs store_defs verify_defs)

text \<open>
  The verification path has no test for a payment that is already SUCCESS: for a BKASH
  payment each verified result runs \<^verbatim>\<open>reduceStock\<close> again. Two verifications of the
  example order of three Widgets leave four of the ten in stock.
\<close>

lemma verifyPayment_bkash_twice:
  "map_option product_stock
     (products (snd (verifyPayment example_gateway ''t2'' ''pay1''
        (snd (verifyPayment example_gateway ''t1'' ''pay1''
           (example_world PENDING [example_payment BKASH PaymentStatus_PENDING]))))) ''p1'') =
     Some 4"
  by (simp add: example_defs store_defs verify_defs)

section \<open>Operations on a payment that is already SUCCESS\<close>

lemma handlePaymentFailed_result:
  assumes found: "findFirst_payment (intent_id paymentIntent) (payments w) = Some payment"
      and ids: "distinct (map payment_id (payments w))"
  shows "\<exists>updated w'. handlePaymentFailed now paymentIntent w = (Inr (), w') \<and>
           findUnique_payment (payment_id payment) (payments w') = Some updated \<and>
           payment_status updated = PaymentStatus_FAILED \<and>
           orders w' = orders w \<and> products w' = products w \<and>
           provider_calls w' = provider_calls w"
proof -
  have unique: "findUnique_payment (payment_id payment) (payments w) = Some payment"
    using ids found by (rule findUnique_of_findFirst)
  show ?thesis
    using found unique
    by (simp add: handlePaymentFailed_def payment_update_def findUnique_payment_map)
qed

lemma handlePaymentCanceled_result:
  assumes found: "findFirst_payment (intent_id paymentIntent) (payments w) = Some payment"
      and ids: "distinct (map payment_id (payments w))"
      and ord: "orders w (payment_orderId payment) = Some ord"
  shows "\<exists>updated w'. handlePaymentCanceled now paymentIntent w = (Inr (), w') \<and>
           findUnique_payment (payment_id payment) (payments w') = Some updated \<and>
           payment_status updated = PaymentStatus_FAILED \<and>
           orders w' = (orders w)(payment_orderId payment \<mapsto> ord\<lparr>order_status := CANCELED\<rparr>) \<and>
           products w' = products w \<and>
           provider_calls w' = provider_calls w"
proof -
  have unique: "findUnique_payment (payment_id payment) (payments w) = Some payment"
    using ids found by (rule findUnique_of_findFirst)
  show ?thesis
    using found unique ord
    by (simp add: handlePaymentCanceled_def payment_update_def order_update_def
          transaction_def findUnique_payment_map)
qed

lemma handleStripeWebhook_payment_failed:
  assumes "gw_constructPaymentIntent gw payload signature = Inr event"
      and "event_type event = ''payment_intent.payment_failed''"
  shows "handleStripeWebhook gw now payload signature w =
           (case handlePaymentFailed now (event_object event) w of
              (Inl e, w') \<Rightarrow> (Inl e, w')
            | (Inr u, w') \<Rightarrow> (Inr \<lparr>received = True\<rparr>, w'))"
  using assms by (simp add: handleStripeWebhook_def getStrategy_stripe)

lemma handleStripeWebhook_canceled:
  assumes "gw_constructPaymentIntent gw payload signature = Inr event"
      and "event_type event = ''payment_intent.canceled''"
  shows "handleStripeWebhook gw now payload signature w =
           (case handlePaymentCanceled now (event_object event) w of
              (Inl e, w') \<Rightarrow> (Inl e, w')
            | (Inr u, w') \<Rightarrow> (Inr \<lparr>received = True\<rparr>, w'))"
  using assms by (simp add: handleStripeWebhook_def getStrategy_stripe)

lemma verifyPayment_verified_keeps_success:
  assumes found: "findUnique_payment paymentId (payments w) = Some payment"
      and st: "payment_status payment = PaymentStatus_SUCCESS"
      and tid: "payment_transactionId payment = Some transactionId" "transactionId \<noteq> []"
      and gwr: "gw_verifyPayment gw (payment_provider payment) transactionId = Inr verification"
               "verification_verified verification"
      and ord: "orders w (payment_orderId payment) = Some ord"
  shows "map_option payment_status
           (findUnique_payment paymentId (payments (snd (verifyPayment gw now paymentId w)))) =
           Some PaymentStatus_SUCCESS \<and>
         (orders (snd (verifyPayment gw now paymentId w)) = orders w \<or>
          orders (snd (verifyPayment gw now paymentId w)) =
            (orders w)(payment_orderId payment \<mapsto> ord\<lparr>order_status := PAID\<rparr>))"
proof (cases "payment_provider payment")
  case STRIPE
  then obtain updated w' where "verifyPayment gw now paymentId w = (Inr updated, w')"
    "findUnique_payment paymentId (payments w') = Some updated"
    "payment_status updated = PaymentStatus_SUCCESS"
    "orders w' = (orders w)(payment_orderId payment \<mapsto> ord\<lparr>order_status := PAID\<rparr>)"
    using verifyPayment_stripe_verified [OF found _ tid _ gwr(2) ord, of gw now] gwr(1)
    by auto
  then show ?thesis by simp
next
  case BKASH
  define data :: "Payment \<Rightarrow> Payment" where "data = (\<lambda>p. p\<lparr>payment_status := PaymentStatus_SUCCESS,
      payment_transactionId :=
        Some (string_or (verification_transactionId verification) transactionId),
      payment_rawResponse :=
        Some (AList.update ''verifiedAt'' (JStr now)
               (AList.update ''verificationResult'' (json_of_verification verification)
                  (spread (payment_rawResponse payment))))\<rparr>)"
  define w1 where "w1 = w\<lparr>provider_calls := provider_calls w @ [VerifyCall BKASH transactionId]\<rparr>"
  define tx1 where "tx1 = w1\<lparr>payments :=
      map (\<lambda>q. if payment_id q = paymentId then data q else q) (payments w1)\<rparr>"
  define tx2 where "tx2 = tx1\<lparr>orders :=
      (orders tx1)(payment_orderId payment \<mapsto> ord\<lparr>order_status := PAID\<rparr>)\<rparr>"
  have keep_id: "\<And>q. payment_id (data q) = payment_id q"
    by (simp add: data_def)
  have upd1: "payment_update paymentId data w1 = Inr tx1"
    using found by (simp add: payment_update_found tx1_def w1_def)
  have upd2: "order_update (payment_orderId payment) (\<lambda>ord. ord\<lparr>order_status := PAID\<rparr>) tx1 = Inr tx2"
    using ord by (simp add: order_update_def tx1_def tx2_def w1_def)
  show ?thesis
  proof (cases "reduceStock (payment_orderId payment) tx2")
    case (Inl e)
    have "verifyPayment gw now paymentId w = (Inl e, w1)"
      using found BKASH tid gwr upd1 upd2 Inl
      by (simp add: verifyPayment_def getStrategy_literal string_or_def transaction_def
            data_def w1_def)
    then show ?thesis
      using found st by (simp add: w1_def)
  next
    case (Inr tx3)
    have run: "verifyPayment gw now paymentId w = (Inr (data payment), tx3)"
      using found BKASH tid gwr upd1 upd2 Inr
      by (simp add: verifyPayment_def getStrategy_literal string_or_def transaction_def
            data_def w1_def)
    have frame: "orders tx3 = orders tx2" "payments tx3 = payments tx2"
      using reduceStock_frame [OF Inr] by simp_all
    have "findUnique_payment paymentId (payments tx3) = Some (data payment)"
      using found keep_id by (simp add: frame tx2_def tx1_def w1_def findUnique_payment_map)
    moreover have "payment_status (data payment) = PaymentStatus_SUCCESS"
      by (simp add: data_def)
    moreover have "orders tx3 = (orders w)(payment_orderId payment \<mapsto> ord\<lparr>order_status := PAID\<rparr>)"
      by (simp add: frame tx2_def tx1_def w1_def)
    ultimately show ?thesis
      using run by simp
  qed
qed

text \<open>
  C2 (as amended). For a payment whose status is SUCCESS: a further verified
  \<^verbatim>\<open>payment_intent.succeeded\<close> event changes nothing at all, so the payment's and the
  order's status stay as they are. The other settlement operations are not blocked: a
  \<^verbatim>\<open>payment_intent.payment_failed\<close> event and a verification that is not verified set
  the payment to FAILED and leave the orders and products unchanged; a
  \<^verbatim>\<open>payment_intent.canceled\<close> event sets the payment to FAILED and the order to
  CANCELED; a verification that is verified leaves the payment SUCCESS and the orders
  either unchanged or with the owning order set to PAID.
\<close>

theorem success_payment_later_operations:
  assumes st: "payment_status payment = PaymentStatus_SUCCESS"
      and ord: "orders w (payment_orderId payment) = Some ord"
      and ids: "distinct (map payment_id (payments w))"
  shows "(gw_constructPaymentIntent gw payload signature = Inr event \<and>
          findFirst_payment (intent_id (event_object event)) (payments w) = Some payment \<longrightarrow>
            (event_type event = ''payment_intent.succeeded'' \<longrightarrow>
               handleStripeWebhook gw now payload signature w = (Inr \<lparr>received = True\<rparr>, w)) \<and>
            (event_type event = ''payment_intent.payment_failed'' \<longrightarrow>
               (case handleStripeWebhook gw now payload signature w of
                  (Inl e, w') \<Rightarrow> False
                | (Inr ack, w') \<Rightarrow>
                    map_option payment_status
                      (findUnique_payment (payment_id payment) (payments w')) =
                      Some PaymentStatus_FAILED \<and>
                    orders w' = orders w \<and> products w' = products w)) \<and>
            (event_type event = ''payment_intent.canceled'' \<longrightarrow>
               (case handleStripeWebhook gw now payload signature w of
                  (Inl e, w') \<Rightarrow> False
                | (Inr ack, w') \<Rightarrow>
                    map_option payment_status
                      (findUnique_payment (payment_id payment) (payments w')) =
                      Some PaymentStatus_FAILED \<and>
                    orders w' =
                      (orders w)(payment_orderId payment \<mapsto> ord\<lparr>order_status := CANCELED\<rparr>) \<and>
                    products w' = products w))) \<and>
         (findUnique_payment paymentId (payments w) = Some payment \<and>
          payment_transactionId payment = Some transactionId \<and> transactionId \<noteq> [] \<and>
          gw_verifyPayment gw (payment_provider payment) transactionId = Inr verification \<longrightarrow>
            (if verification_verified verification
             then map_option payment_status
                    (findUnique_payment paymentId
                       (payments (snd (verifyPayment gw now paymentId w)))) =
                    Some PaymentStatus_SUCCESS \<and>
                  (orders (snd (verifyPayment gw now paymentId w)) = orders w \<or>
                   orders (snd (verifyPayment gw now paymentId w)) =
                     (orders w)(payment_orderId payment \<mapsto> ord\<lparr>order_status := PAID\<rparr>))
             else (case verifyPayment gw now paymentId w of
                     (Inl e, w') \<Rightarrow> False
                   | (Inr updated, w') \<Rightarrow>
                       findUnique_payment paymentId (payments w') = Some updated \<and>
                       payment_status updated = PaymentStatus_FAILED \<and>
                       orders w' = orders w \<and> products w' = products w)))"
proof (intro conjI impI)
  assume a: "gw_constructPaymentIntent gw payload signature = Inr event \<and>
      findFirst_payment (intent_id (event_object event)) (payments w) = Some payment"
    and type: "event_type event = ''payment_intent.succeeded''"
  show "handleStripeWebhook gw now payload signature w = (Inr \<lparr>received = True\<rparr>, w)"
    using a type handlePaymentSuccess_already_processed [of "event_object event" w payment now] st
    by (simp add: handleStripeWebhook_succeeded)
next
  assume a: "gw_constructPaymentIntent gw payload signature = Inr event \<and>
      findFirst_payment (intent_id (event_object event)) (payments w) = Some payment"
    and type: "event_type event = ''payment_intent.payment_failed''"
  from a have found: "findFirst_payment (intent_id (event_object event)) (payments w) = Some payment"
    by simp
  obtain updated w' where "handlePaymentFailed now (event_object event) w = (Inr (), w')"
    "findUnique_payment (payment_id payment) (payments w') = Some updated"
    "payment_status updated = PaymentStatus_FAILED"
    "orders w' = orders w" "products w' = products w"
    using handlePaymentFailed_result [OF found ids, of now] by blast
  then show "case handleStripeWebhook gw now payload signature w of
      (Inl e, w') \<Rightarrow> False
    | (Inr ack, w') \<Rightarrow>
        map_option payment_status
          (findUnique_payment (payment_id payment) (payments w')) =
          Some PaymentStatus_FAILED \<and>
        orders w' = orders w \<and> products w' = products w"
    using a type by (simp add: handleStripeWebhook_payment_failed)
next
  assume a: "gw_constructPaymentIntent gw payload signature = Inr event \<and>
      findFirst_payment (intent_id (event_object event)) (payments w) = Some payment"
    and type: "event_type event = ''payment_intent.canceled''"
  from a have found: "findFirst_payment (intent_id (event_object event)) (payments w) = Some payment"
    by simp
  obtain updated w' where "handlePaymentCanceled now (event_object event) w = (Inr (), w')"
    "findUnique_payment (payment_id payment) (payments w') = Some updated"
    "payment_status updated = PaymentStatus_FAILED"
    "orders w' = (orders w)(payment_orderId payment \<mapsto> ord\<lparr>order_status := CANCELED\<rparr>)"
    "products w' = products w"
    using handlePaymentCanceled_result [OF found ids ord, of now] by blast
  then show "case handleStripeWebhook gw now payload signature w of
      (Inl e, w') \<Rightarrow> False
    | (Inr ack, w') \<Rightarrow>
        map_option payment_status
          (findUnique_payment (payment_id payment) (payments w')) =
          Some PaymentStatus_FAILED \<and>
        orders w' =
          (orders w)(payment_orderId payment \<mapsto> ord\<lparr>order_status := CANCELED\<rparr>) \<and>
        products w' = products w"
    using a type by (simp add: handleStripeWebhook_canceled)
next
  assume a: "findUnique_payment paymentId (payments w) = Some payment \<and>
      payment_transactionId payment = Some transactionId \<and> transactionId \<noteq> [] \<and>
      gw_verifyPayment gw (payment_provider payment) transactionId = Inr verification"
  then have found: "findUnique_payment paymentId (payments w) = Some payment"
    and tid: "payment_transactionId payment = Some transactionId" "transactionId \<noteq> []"
    and gwr: "gw_verifyPayment gw (payment_provider payment) transactionId = Inr verification"
    by simp_all
  show "if verification_verified verification
     then map_option payment_status
            (findUnique_payment paymentId
               (payments (snd (verifyPayment gw now paymentId w)))) =
            Some PaymentStatus_SUCCESS \<and>
          (orders (snd (verifyPayment gw now paymentId w)) = orders w \<or>
           orders (snd (verifyPayment gw now paymentId w)) =
             (orders w)(payment_orderId payment \<mapsto> ord\<lparr>order_status := PAID\<rparr>))
     else (case verifyPayment gw now paymentId w of
             (Inl e, w') \<Rightarrow> False
           | (Inr updated, w') \<Rightarrow>
               findUnique_payment paymentId (payments w') = Some updated \<and>
               payment_status updated = PaymentStatus_FAILED \<and>
               orders w' = orders w \<and> products w' = products w)"
  proof (cases "verification_verified verification")
    case True
    then show ?thesis
      using verifyPayment_verified_keeps_success [OF found st tid gwr True ord, of now]
      by simp
  next
    case False
    obtain updated w' where "verifyPayment gw now paymentId w = (Inr updated, w')"
      "findUnique_payment paymentId (payments w') = Some updated"
      "payment_status updated = PaymentStatus_FAILED"
      "orders w' = orders w" "products w' = products w"
      using verifyPayment_not_verified [OF found tid gwr False, of now] by blast
    then show ?thesis using False by simp
  qed
qed

theorem success_payment_later_operations_witness:
  "handleStripeWebhook example_gateway ''t1'' ''payment_intent.succeeded'' ''valid''
       (example_world PAID [example_payment STRIPE PaymentStatus_SUCCESS]) =
     (Inr \<lparr>received = True\<rparr>, example_world PAID [example_payment STRIPE PaymentStatus_SUCCESS]) \<and>
   (case handleStripeWebhook example_gateway ''t1'' ''payment_intent.payment_failed'' ''valid''
           (example_world PAID [example_payment STRIPE PaymentStatus_SUCCESS]) of
      (Inl e, w') \<Rightarrow> False
    | (Inr ack, w') \<Rightarrow>
        map_option payment_status (findUnique_payment ''pay1'' (payments w')) =
          Some PaymentStatus_FAILED \<and>
        map_option order_status (orders w' ''o1'') = Some PAID) \<and>
   (case handleStripeWebhook example_gateway ''t1'' ''payment_intent.canceled'' ''valid''
           (example_world PAID [example_payment STRIPE PaymentStatus_SUCCESS]) of
      (Inl e, w') \<Rightarrow> False
    | (Inr ack, w') \<Rightarrow>
        map_option payment_status (findUnique_payment ''pay1'' (payments w')) =
          Some PaymentStatus_FAILED \<and>
        map_option order_status (orders w' ''o1'') = Some CANCELED) \<and>
   (case verifyPayment example_declining_gateway ''t1'' ''pay1''
           (example_world PAID [example_payment STRIPE PaymentStatus_SUCCESS]) of
      (Inl e, w') \<Rightarrow> False
    | (Inr updated, w') \<Rightarrow>
        payment_status updated = PaymentStatus_FAILED \<and>
        map_option order_status (orders w' ''o1'') = Some PAID) \<and>
   map_option payment_status
     (findUnique_payment ''pay1'' (payments (snd (verifyPayment example_gateway ''t1'' ''pay1''
        (example_world PAID [example_payment STRIPE PaymentStatus_SUCCESS]))))) =
     Some PaymentStatus_SUCCESS"
proof -
  let ?w = "example_world PAID [example_payment STRIPE PaymentStatus_SUCCESS]"
  let ?p = "example_payment STRIPE PaymentStatus_SUCCESS"
  have st: "payment_status ?p = PaymentStatus_SUCCESS"
    by (simp add: example_defs)
  have ord: "orders ?w (payment_orderId ?p) = Some (example_order PAID)"
    by (simp add: example_defs)
  have ids: "distinct (map payment_id (payments ?w))"
    by (simp add: example_defs)
  note general = success_payment_later_operations [OF st ord ids]
  note succeeded = general [where gw = example_gateway
      and payload = "''payment_intent.succeeded''" and signature = "''valid''"
      and event = "\<lparr>event_type = ''payment_intent.succeeded'', event_object = example_intent\<rparr>"
      and now = "''t1''", THEN conjunct1]
  note failed = general [where gw = example_gateway
      and payload = "''payment_intent.payment_failed''" and signature = "''valid''"
      and event = "\<lparr>event_type = ''payment_intent.payment_failed'', event_object = example_intent\<rparr>"
      and now = "''t1''", THEN conjunct1]
  note canceled = general [where gw = example_gateway
      and payload = "''payment_intent.canceled''" and signature = "''valid''"
      and event = "\<lparr>event_type = ''payment_intent.canceled'', event_object = example_intent\<rparr>"
      and now = "''t1''", THEN conjunct1]
  note declined = general [where gw = example_declining_gateway and now = "''t1''"
      and paymentId = "''pay1''" and transactionId = "''pi_1''"
      and verification =
        "\<lparr>verification_verified = False, verification_status = Some ''failed'',
          verification_transactionId = None, verification_amount = None,
          verification_message = None\<rparr>", THEN conjunct2]
  note verified = general [where gw = example_gateway and now = "''t1''"
      and paymentId = "''pay1''" and transactionId = "''pi_1''"
      and verification =
        "\<lparr>verification_verified = True, verification_status = Some ''succeeded'',
          verification_transactionId = Some ''pi_1'', verification_amount = None,
          verification_message = None\<rparr>", THEN conjunct2]
  show ?thesis
    using succeeded failed canceled declined verified
    by (simp add: example_defs store_defs webhook_defs verify_defs)
qed

theorem payment_failed_after_success_counterexample:
  "map_option payment_status
     (findUnique_payment ''pay1''
        (payments (example_world PAID [example_payment STRIPE PaymentStatus_SUCCESS]))) =
     Some PaymentStatus_SUCCESS \<and>
   fst (handleStripeWebhook example_gateway ''t1'' ''payment_intent.payment_failed'' ''valid''
          (example_world PAID [example_payment STRIPE PaymentStatus_SUCCESS])) =
     Inr \<lparr>received = True\<rparr> \<and>
   map_option payment_status
     (findUnique_payment ''pay1''
        (payments (snd (handleStripeWebhook example_gateway ''t1''
           ''payment_intent.payment_failed'' ''valid''
           (example_world PAID [example_payment STRIPE PaymentStatus_SUCCESS]))))) =
     Some PaymentStatus_FAILED"
  by (simp add: example_defs store_defs webhook_defs)

section \<open>Order creation\<close>

lemma findMany_products_length:
  "length (findMany_products productIds w) = length productIds \<longleftrightarrow>
     distinct productIds \<and> (\<forall>i\<in>set productIds. products w i \<noteq> None)"
proof -
  let ?found = "filter (\<lambda>i. products w i \<noteq> None) (remdups productIds)"
  have le1: "length ?found \<le> length (remdups productIds)"
    by (rule length_filter_le)
  have le2: "length (remdups productIds) \<le> length productIds"
    by (rule length_remdups_leq)
  show ?thesis
  proof
    assume eq: "length (findMany_products productIds w) = length productIds"
    then have e1: "length ?found = length (remdups productIds)"
      and e2: "length (remdups productIds) = length productIds"
      using le1 le2 by (simp_all add: findMany_products_def)
    from e2 have d: "distinct productIds"
      by (metis distinct_remdups length_remdups_eq)
    from e1 have "?found = remdups productIds"
      by (metis length_filter_less less_irrefl filter_True)
    then have "\<forall>i\<in>set (remdups productIds). products w i \<noteq> None"
      by (metis (mono_tags, lifting) filter_id_conv)
    then show "distinct productIds \<and> (\<forall>i\<in>set productIds. products w i \<noteq> None)"
      using d by simp
  next
    assume "distinct productIds \<and> (\<forall>i\<in>set productIds. products w i \<noteq> None)"
    then show "length (findMany_products productIds w) = length productIds"
      by (simp add: findMany_products_def distinct_remdups_id)
  qed
qed

lemma createOrder_items_throws:
  "\<exists>e. createOrder_items productMap (item # rest) totalAmount orderItems = Inl e"
  by (simp add: Decimal_multiply_def split: option.splits)

text \<open>
  Whatever the call returns, the products of the resulting world are those of the world
  it ran in: \<^verbatim>\<open>createOrder\<close> reads products and writes orders only.
\<close>

lemma createOrder_products:
  "products (snd (createOrder uuid newId userId items w)) = products w"
  by (simp add: createOrder_def transaction_def Let_def split: sum.splits prod.splits)

text \<open>
  A request that names a product twice is rejected by the count of the products found,
  before the loop: no order has two line items for one product.
\<close>

lemma createOrder_rejects_repeated_product:
  assumes "createOrderSchema_issues uuid items = []"
      and "\<not> distinct (map dto_productId items)"
  shows "createOrder uuid newId userId items w =
           (Inl (NotFoundError ''One or more products not found''), w)"
proof -
  have "items \<noteq> []"
    using assms(2) by auto
  moreover have "length (findMany_products (map dto_productId items) w) \<noteq>
      length (map dto_productId items)"
    using assms(2) findMany_products_length [of "map dto_productId items" w] by blast
  ultimately show ?thesis
    using assms(1) by (simp add: createOrder_def transaction_def Let_def)
qed

text \<open>
  Since the subtotal cannot be computed, no call creates an order: every call throws and
  leaves the world as it was.
\<close>

lemma createOrder_always_throws:
  "\<exists>e. createOrder uuid newId userId items w = (Inl e, w)"
proof (cases items)
  case Nil
  then show ?thesis
    by (simp add: createOrder_def createOrderSchema_issues_def)
next
  case (Cons item rest)
  obtain e where "createOrder_items
      (products w |` set (findMany_products (map dto_productId items) w)) items 0 [] = Inl e"
    using createOrder_items_throws Cons by blast
  then show ?thesis
    using Cons by (simp add: createOrder_def transaction_def Let_def)
qed

text \<open>
  C10. \<^verbatim>\<open>createOrder\<close> is written to check that every requested product exists, is
  ACTIVE and has the requested stock, and then to create a PENDING order without touching
  the stock. It does not get that far: the first item that passes the three checks reaches
  \<^verbatim>\<open>price.multiply\<close> and the call throws. An order of three Widgets, of which ten are
  in stock, is not created; and when a second item asks for two Gadgets, of which one is
  in stock, the call ends in the \<^verbatim>\<open>TypeError\<close> of the first item and never reports
  the insufficient stock. In both runs the world, stock included, is unchanged.
\<close>

theorem createOrder_throws_at_subtotal:
  "createOrder (\<lambda>i. True) ''o2'' ''u1'' [\<lparr>dto_productId = ''p1'', dto_quantity = 3\<rparr>]
       (example_world PENDING []) =
     (Inl (TypeError ''price.multiply is not a function''), example_world PENDING []) \<and>
   createOrder (\<lambda>i. True) ''o2'' ''u1''
       [\<lparr>dto_productId = ''p1'', dto_quantity = 3\<rparr>,
        \<lparr>dto_productId = ''p2'', dto_quantity = 2\<rparr>]
       (example_short_world PENDING PaymentStatus_PENDING) =
     (Inl (TypeError ''price.multiply is not a function''),
      example_short_world PENDING PaymentStatus_PENDING)"
  by (simp add: example_world_def example_short_world_def example_product_def order_defs
        store_defs)

section \<open>Webhook for an unknown transaction\<close>

text \<open>
  C5. A verified \<^verbatim>\<open>payment_intent.succeeded\<close> event whose transaction id matches no
  payment changes nothing (no payment, order, product, and no remote call), and the
  webhook entry point still answers \<^verbatim>\<open>{ received: true }\<close>.
\<close>

theorem webhook_unknown_transaction_is_noop:
  assumes "gw_constructPaymentIntent gw payload signature = Inr event"
      and "event_type event = ''payment_intent.succeeded''"
      and "findFirst_payment (intent_id (event_object event)) (payments w) = None"
  shows "handlePaymentSuccess now (event_object event) w = (Inr (), w) \<and>
         handleStripeWebhook gw now payload signature w = (Inr \<lparr>received = True\<rparr>, w)"
  using assms
  by (simp add: handleStripeWebhook_def handlePaymentSuccess_def getStrategy_stripe)

theorem webhook_unknown_transaction_is_noop_witness:
  "handlePaymentSuccess ''t1'' example_intent (example_world PENDING []) =
     (Inr (), example_world PENDING []) \<and>
   handleStripeWebhook example_gateway ''t1'' ''payment_intent.succeeded'' ''valid''
       (example_world PENDING []) =
     (Inr \<lparr>received = True\<rparr>, example_world PENDING [])"
  using webhook_unknown_transaction_is_noop
          [of example_gateway "''payment_intent.succeeded''" "''valid''"
              "\<lparr>event_type = ''payment_intent.succeeded'', event_object = example_intent\<rparr>"
              "example_world PENDING []" "''t1''"]
  by (simp add: example_gateway_def example_world_def findFirst_payment_def)

section \<open>Refund\<close>

text \<open>
  C6. A refund of a payment whose status is PENDING or FAILED fails with a payment error;
  the world is returned as it was, so no remote call was made (the trace of provider
  calls is part of the world) and the payment row is unchanged.
\<close>

theorem refundPayment_rejects_non_success:
  assumes "findUnique_payment paymentId (payments w) = Some payment"
      and "payment_status payment = PaymentStatus_PENDING \<or>
           payment_status payment = PaymentStatus_FAILED"
  shows "refundPayment gw now paymentId amount w =
           (Inl (PaymentError ''Can only refund successful payments''), w)"
  using assms by (auto simp: refundPayment_def)

theorem refundPayment_rejects_non_success_witness:
  "refundPayment example_gateway ''t1'' ''pay1'' None
       (example_world PENDING [example_payment STRIPE PaymentStatus_PENDING]) =
     (Inl (PaymentError ''Can only refund successful payments''),
      example_world PENDING [example_payment STRIPE PaymentStatus_PENDING])"
  using refundPayment_rejects_non_success
          [of "''pay1''" "example_world PENDING [example_payment STRIPE PaymentStatus_PENDING]"
              "example_payment STRIPE PaymentStatus_PENDING" example_gateway "''t1''" None]
  by (simp add: example_world_def example_payment_def findUnique_payment_def)

lemma refundPayment_result_of_success:
  assumes "findUnique_payment paymentId (payments w) = Some payment"
      and "payment_status payment = PaymentStatus_SUCCESS"
      and "payment_transactionId payment = Some transactionId" "transactionId \<noteq> []"
      and "gw_refundPayment gw (payment_provider payment) transactionId amount = Inr result"
          "refund_success result"
      and "orders w (payment_orderId payment) = Some ord"
  shows "refundPayment gw now paymentId amount w =
     (let data = (\<lambda>p. p\<lparr>payment_status := PaymentStatus_FAILED,
                    payment_rawResponse :=
                      Some (AList.update ''refundAmount''
                             (JNum (case amount of
                                      None \<Rightarrow> order_totalAmount ord
                                    | Some a \<Rightarrow> if a = 0 then order_totalAmount ord else a))
                             (AList.update ''refundedAt'' (JStr now)
                               (AList.update ''refundId''
                                  (json_of_string_option (refund_refundId result))
                                  (spread (payment_rawResponse payment)))))\<rparr>)
      in (Inr (data payment),
          w\<lparr>provider_calls := provider_calls w @
                [RefundCall (payment_provider payment) transactionId amount],
            payments := map (\<lambda>p. if payment_id p = paymentId then data p else p) (payments w)\<rparr>))"
  using assms
  by (simp add: refundPayment_def getStrategy_provider string_or_def payment_update_def
        refundAmount_def Let_def split: option.splits)

text \<open>
  C7. For a payment in SUCCESS status with a transaction id, when the provider's refund
  succeeds, \<^verbatim>\<open>refundPayment\<close> returns the updated payment, which is the row now stored:
  its status is FAILED, its audit blob holds \<open>refundId\<close>, \<open>refundedAt\<close> and
  \<open>refundAmount\<close> (the order's total amount when no amount, or the amount 0, is given)
  and every other key of the blob is as before; the orders (so the owning order's status) and the products are
  unchanged.
\<close>

theorem refundPayment_success:
  assumes "findUnique_payment paymentId (payments w) = Some payment"
      and "payment_status payment = PaymentStatus_SUCCESS"
      and "payment_transactionId payment = Some transactionId" "transactionId \<noteq> []"
      and "gw_refundPayment gw (payment_provider payment) transactionId amount = Inr result"
          "refund_success result"
      and "orders w (payment_orderId payment) = Some ord"
  shows "case refundPayment gw now paymentId amount w of
           (Inl e, w') \<Rightarrow> False
         | (Inr updated, w') \<Rightarrow>
             findUnique_payment paymentId (payments w') = Some updated \<and>
             payment_status updated = PaymentStatus_FAILED \<and>
             map_of (spread (payment_rawResponse updated)) ''refundId'' =
               Some (json_of_string_option (refund_refundId result)) \<and>
             map_of (spread (payment_rawResponse updated)) ''refundedAt'' = Some (JStr now) \<and>
             map_of (spread (payment_rawResponse updated)) ''refundAmount'' =
               Some (JNum (case amount of
                             None \<Rightarrow> order_totalAmount ord
                           | Some a \<Rightarrow> if a = 0 then order_totalAmount ord else a)) \<and>
             (\<forall>k. k \<notin> {''refundId'', ''refundedAt'', ''refundAmount''} \<longrightarrow>
                  map_of (spread (payment_rawResponse updated)) k =
                  map_of (spread (payment_rawResponse payment)) k) \<and>
             orders w' = orders w \<and> products w' = products w"
  unfolding refundPayment_result_of_success [OF assms]
  using assms(1)
  by (simp add: Let_def findUnique_payment_map spread_def update_conv')

theorem refundPayment_success_witness:
  "case refundPayment example_gateway ''t1'' ''pay1'' None
          (example_world PAID [example_payment STRIPE PaymentStatus_SUCCESS]) of
     (Inl e, w') \<Rightarrow> False
   | (Inr updated, w') \<Rightarrow>
       findUnique_payment ''pay1'' (payments w') = Some updated \<and>
       payment_status updated = PaymentStatus_FAILED \<and>
       payment_rawResponse updated =
         Some [(''clientSecret'', JStr ''cs_1''), (''redirectUrl'', JUndefined),
               (''refundId'', JStr ''re_1''), (''refundedAt'', JStr ''t1''),
               (''refundAmount'', JNum 15)] \<and>
       map_option order_status (orders w' ''o1'') = Some PAID"
  using refundPayment_success
          [of "''pay1''" "example_world PAID [example_payment STRIPE PaymentStatus_SUCCESS]"
              "example_payment STRIPE PaymentStatus_SUCCESS" "''pi_1''" example_gateway None
              "\<lparr>refund_success = True, refund_refundId = Some ''re_1''\<rparr>"
              "example_order PAID" "''t1''"]
  by (simp add: example_defs store_defs refundPayment_def)

section \<open>Initiation\<close>

text \<open>
  C8. When the order already has a payment row, whatever that payment's status,
  \<^verbatim>\<open>initiatePayment\<close> fails with a payment error; the world is returned as it was, so
  no payment row was created and no remote call was made.
\<close>

theorem initiatePayment_rejects_existing_payment:
  assumes "orders w orderId = Some ord"
      and "p \<in> set (payments w)"
      and "payment_orderId p = orderId"
  shows "initiatePayment gw newId orderId provider w =
           (Inl (PaymentError ''Payment already initiated for this order''), w)"
proof -
  have "filter (\<lambda>q. payment_orderId q = orderId) (payments w) \<noteq> []"
    using assms(2,3) by (auto simp: filter_empty_conv)
  then show ?thesis
    using assms(1) by (simp add: initiatePayment_def)
qed

theorem initiatePayment_rejects_existing_payment_witness:
  "initiatePayment example_gateway ''pay2'' ''o1'' ''stripe''
       (example_world PENDING [example_payment STRIPE PaymentStatus_FAILED]) =
     (Inl (PaymentError ''Payment already initiated for this order''),
      example_world PENDING [example_payment STRIPE PaymentStatus_FAILED])"
  using initiatePayment_rejects_existing_payment
          [of "example_world PENDING [example_payment STRIPE PaymentStatus_FAILED]" "''o1''"
              "example_order PENDING" "example_payment STRIPE PaymentStatus_FAILED"
              example_gateway "''pay2''" "''stripe''"]
  by (simp add: example_world_def example_payment_def)

section \<open>Order status transitions\<close>



end
